theory Spec2Isabelle
  imports Main "HOL-Library.AList" "HOL-Library.Multiset"
begin

section \<open>JavaScript values\<close>

text \<open>
  The numbers the program handles are seconds, ranks and the numbers of a JSON text.
  \<open>Fin n\<close> is an integer-valued number; \<open>NaN\<close> and the two infinities are the
  non-finite numbers (\<open>JSON.parse\<close> yields \<open>Infinity\<close> for a literal such as
  \<open>1e999\<close>, \<open>parseInt\<close> yields \<open>NaN\<close>). A number is a double: \<open>Fin n\<close> is a value
  of the program when \<open>n\<close> is an integer that a double holds, as every integer up to
  \<open>2\<^sup>5\<^sup>3\<close> in magnitude is. Fractions are outside the model.
\<close>

datatype jsnum = NaN | NegInf | Fin int | PosInf

text \<open>
  A value as \<open>JSON.parse\<close> or a property read produces it. An object is the list of
  its own properties; it has one value per key, so a property read takes the first pair
  with the key and a later pair with the same key is dead. A string is the list of its
  code units, one character each; the type has the code units below 256 (ASCII and
  Latin-1), and text with a higher code unit is outside the model.
\<close>

datatype jsval =
    JUndefined
  | JNull
  | JBool bool
  | JNum jsnum
  | JStr string
  | JArr "jsval list"
  | JObj "(string \<times> jsval) list"

datatype js_error = SyntaxError | TypeError

text \<open>ToBoolean, as \<open>if (v)\<close>, \<open>v || w\<close> and \<open>v && w\<close> apply it.\<close>

fun truthy :: "jsval \<Rightarrow> bool" where
  "truthy JUndefined = False"
| "truthy JNull = False"
| "truthy (JBool b) = b"
| "truthy (JNum NaN) = False"
| "truthy (JNum (Fin n)) = (n \<noteq> 0)"
| "truthy (JNum NegInf) = True"
| "truthy (JNum PosInf) = True"
| "truthy (JStr s) = (s \<noteq> [])"
| "truthy (JArr xs) = True"
| "truthy (JObj fs) = True"

text \<open>
  The property read \<open>v.k\<close>, for the keys the program reads (limit, nextURL,
  alternatives, question, nickname, score): none of them is a built-in property of a
  primitive or of an array, so only an object can hold one. Reading a property of
  \<open>undefined\<close> or \<open>null\<close> throws.
\<close>

fun get_prop :: "jsval \<Rightarrow> string \<Rightarrow> js_error + jsval" where
  "get_prop JUndefined k = Inl TypeError"
| "get_prop JNull k = Inl TypeError"
| "get_prop (JObj fs) k = Inr (case map_of fs k of None \<Rightarrow> JUndefined | Some v \<Rightarrow> v)"
| "get_prop v k = Inr JUndefined"

text \<open>
  Strict equality \<open>a === b\<close>. \<open>NaN\<close> equals nothing. Arrays and objects are compared
  by reference; every comparison of the program has a freshly parsed value or a
  primitive on one side, so two of them are never the same reference.
\<close>

fun strict_eq :: "jsval \<Rightarrow> jsval \<Rightarrow> bool" where
  "strict_eq (JNum NaN) b = False"
| "strict_eq a (JNum NaN) = False"
| "strict_eq (JArr xs) b = False"
| "strict_eq (JObj fs) b = False"
| "strict_eq a b = (a = b)"

text \<open>\<open>typeof v === 'object'\<close> and \<open>typeof v === 'number'\<close>.\<close>

fun typeof_object :: "jsval \<Rightarrow> bool" where
  "typeof_object JNull = True"
| "typeof_object (JArr xs) = True"
| "typeof_object (JObj fs) = True"
| "typeof_object v = False"

fun typeof_number :: "jsval \<Rightarrow> bool" where
  "typeof_number (JNum n) = True"
| "typeof_number v = False"

text \<open>\<open>isNaN(v)\<close> on a value whose type is number.\<close>

fun isNaN :: "jsval \<Rightarrow> bool" where
  "isNaN (JNum NaN) = True"
| "isNaN v = False"

subsection \<open>Strings\<close>

text \<open>
  White space as \<open>String.prototype.trim\<close> and \<open>parseInt\<close> skip it (the white space and
  the line terminators of the language). Of these, seven are code units below 256:
  space, tab, line feed, vertical tab, form feed, carriage return and the no-break space
  U+00A0. The others (U+1680, U+2000 to U+200A, U+2028, U+2029, U+202F, U+205F, U+3000,
  U+FEFF) are not characters of the model's strings.
\<close>

definition is_ws :: "char \<Rightarrow> bool" where
  "is_ws c =
     (c \<in> set [CHR '' '', CHR 0x09, CHR 0x0A, CHR 0x0B, CHR 0x0C, CHR 0x0D, CHR 0xA0])"

definition trim :: "string \<Rightarrow> string" where
  "trim s = rev (dropWhile is_ws (rev (dropWhile is_ws s)))"

text \<open>
  The decimal numeral of a natural number, as ToString writes an integer of at most
  \<open>2\<^sup>5\<^sup>3\<close> in magnitude. (A larger number is written with the fewest digits that
  tell its double from the next ones, followed by zeros and, from \<open>10\<^sup>2\<^sup>1\<close> on, by an
  exponent; that is not modelled.)
\<close>

definition digit_char :: "nat \<Rightarrow> char" where
  "digit_char n = ''0123456789'' ! n"

function show_nat :: "nat \<Rightarrow> string" where
  "show_nat n = (if n < 10 then [digit_char n] else show_nat (n div 10) @ [digit_char (n mod 10)])"
  by pat_completeness auto
termination
  by (relation "measure id") auto

declare show_nat.simps [simp del]

fun num_to_string :: "jsnum \<Rightarrow> string" where
  "num_to_string NaN = ''NaN''"
| "num_to_string PosInf = ''Infinity''"
| "num_to_string NegInf = ''-Infinity''"
| "num_to_string (Fin n) = (if n < 0 then CHR ''-'' # show_nat (nat (- n)) else show_nat (nat n))"

fun join_comma :: "string list \<Rightarrow> string" where
  "join_comma [] = []"
| "join_comma [s] = s"
| "join_comma (s # t # ss) = s @ CHR '','' # join_comma (t # ss)"

text \<open>
  ToString. An array is its elements joined by commas, \<open>null\<close> and \<open>undefined\<close>
  elements written as the empty string.
\<close>

fun to_string :: "jsval \<Rightarrow> string" where
  "to_string JUndefined = ''undefined''"
| "to_string JNull = ''null''"
| "to_string (JBool b) = (if b then ''true'' else ''false'')"
| "to_string (JNum n) = num_to_string n"
| "to_string (JStr s) = s"
| "to_string (JArr xs) =
     join_comma (map (\<lambda>x. if x = JUndefined \<or> x = JNull then [] else to_string x) xs)"
| "to_string (JObj fs) = ''[object Object]''"

subsection \<open>parseInt\<close>

text \<open>The value of a character as a digit of radix \<open>r\<close> (0-9, a-z, A-Z), if it is one.\<close>

definition digit_of :: "nat \<Rightarrow> char \<Rightarrow> nat option" where
  "digit_of r c =
     (let n = (of_char c :: nat);
          v = (if 48 \<le> n \<and> n \<le> 57 then Some (n - 48)
               else if 97 \<le> n \<and> n \<le> 122 then Some (n - 87)
               else if 65 \<le> n \<and> n \<le> 90 then Some (n - 55)
               else None)
      in case v of None \<Rightarrow> None | Some d \<Rightarrow> if d < r then Some d else None)"

definition is_digit :: "nat \<Rightarrow> char \<Rightarrow> bool" where
  "is_digit r c = (digit_of r c \<noteq> None)"

fun strip_sign :: "string \<Rightarrow> bool \<times> string" where
  "strip_sign [] = (False, [])"
| "strip_sign (c # cs) =
     (if c = CHR ''-'' then (True, cs)
      else if c = CHR ''+'' then (False, cs)
      else (False, c # cs))"

text \<open>
  The number for a mathematical integer: the double nearest to it, the even one of two
  equally near, and an infinity when that takes more than 1024 bits. A double has 53
  significant bits, so an integer up to \<open>2\<^sup>5\<^sup>3\<close> in magnitude is itself; a longer one
  keeps its leading 53 bits, rounded by the bits that follow.
\<close>

function bit_length :: "int \<Rightarrow> nat" where
  "bit_length n = (if n \<le> 0 then 0 else Suc (bit_length (n div 2)))"
  by pat_completeness auto
termination
  by (relation "measure nat") auto

declare bit_length.simps [simp del]

definition to_double :: "int \<Rightarrow> jsnum" where
  "to_double n =
     (if \<bar>n\<bar> \<le> 2 ^ 53 then Fin n
      else
        (let e = bit_length \<bar>n\<bar> - 53;
             q = \<bar>n\<bar> div 2 ^ e;
             r = \<bar>n\<bar> mod 2 ^ e;
             h = 2 ^ (e - 1);
             m = (if h < r \<or> (r = h \<and> odd q) then q + 1 else q) * 2 ^ e
         in if 1024 < bit_length m then (if n < 0 then NegInf else PosInf)
            else Fin (if n < 0 then - m else m)))"

text \<open>
  \<open>parseInt(string)\<close> with no radix argument: skip leading white space, read a sign,
  take radix 16 after a prefix \<open>0x\<close> or \<open>0X\<close> and radix 10 otherwise, and read the longest
  run of digits; no digit gives \<open>NaN\<close>, and the digits give the number for the integer
  they write. (Of a decimal run with more than 20 significant digits an engine may read
  the digits after the 20th as 0; here every digit is read.)
\<close>

definition parseInt_string :: "string \<Rightarrow> jsnum" where
  "parseInt_string s =
     (case strip_sign (dropWhile is_ws s) of (neg, s2) \<Rightarrow>
        (let hex = (take 2 s2 = ''0x'' \<or> take 2 s2 = ''0X'');
             r = (if hex then 16 else 10);
             s3 = (if hex then drop 2 s2 else s2);
             z = takeWhile (is_digit r) s3
         in if z = [] then NaN
            else to_double ((if neg then - 1 else 1) *
                            int (foldl (\<lambda>a c. a * r + the (digit_of r c)) 0 z))))"

definition parseInt :: "jsval \<Rightarrow> jsnum" where
  "parseInt v = parseInt_string (to_string v)"

subsection \<open>Arithmetic of the sort comparator\<close>

text \<open>\<open>x - y\<close> on numbers.\<close>

fun num_sub :: "jsnum \<Rightarrow> jsnum \<Rightarrow> jsnum" where
  "num_sub NaN y = NaN"
| "num_sub x NaN = NaN"
| "num_sub (Fin a) (Fin b) = Fin (a - b)"
| "num_sub (Fin a) PosInf = NegInf"
| "num_sub (Fin a) NegInf = PosInf"
| "num_sub PosInf PosInf = NaN"
| "num_sub PosInf y = PosInf"
| "num_sub NegInf NegInf = NaN"
| "num_sub NegInf y = NegInf"

text \<open>\<open>v > 0\<close> on a number, as a comparator's result is read (\<open>NaN\<close> counts as 0).\<close>

fun num_gt0 :: "jsnum \<Rightarrow> bool" where
  "num_gt0 (Fin n) = (0 < n)"
| "num_gt0 PosInf = True"
| "num_gt0 x = False"

text \<open>\<open>x -= 1\<close> on a number.\<close>

fun num_dec :: "jsnum \<Rightarrow> jsnum" where
  "num_dec (Fin n) = Fin (n - 1)"
| "num_dec x = x"

section \<open>countdown-timer.js\<close>

text \<open>
  The fields of \<open>CountdownTimer\<close>. \<open>intervalId\<close> is \<open>True\<close> while the field
  holds the id of a live interval and \<open>False\<close> while it is \<open>null\<close>;
  \<open>timer_display\<close> is the number shown in \<open>#timer-display\<close> ("Time Left: n s").
\<close>

record CountdownTimer =
  timeLeft :: jsnum
  intervalId :: bool
  totalTimeSpent :: int
  accumulatedTime :: int
  timer_display :: jsnum

text \<open>The custom event the timer dispatches: 'total-time-spent' with \<open>detail.totalTime\<close>.\<close>

datatype timer_event = TotalTimeSpent int

text \<open>The constructor followed by \<open>render\<close> (the element is connected).\<close>

definition new_CountdownTimer :: CountdownTimer where
  "new_CountdownTimer =
     \<lparr>timeLeft = Fin 0, intervalId = False, totalTimeSpent = 0, accumulatedTime = 0,
      timer_display = Fin 0\<rparr>"

definition updateDisplay :: "CountdownTimer \<Rightarrow> CountdownTimer" where
  "updateDisplay t = t\<lparr>timer_display := timeLeft t\<rparr>"

definition stopTimer :: "CountdownTimer \<Rightarrow> CountdownTimer" where
  "stopTimer t =
     (if intervalId t
      then t\<lparr>intervalId := False,
             accumulatedTime := accumulatedTime t + totalTimeSpent t,
             totalTimeSpent := 0\<rparr>
      else t)"

text \<open>\<open>typeof duration !== 'number' || isNaN(duration)\<close> replaces the argument by 20.\<close>

fun checked_duration :: "jsval \<Rightarrow> jsnum" where
  "checked_duration (JNum NaN) = Fin 20"
| "checked_duration (JNum n) = n"
| "checked_duration _ = Fin 20"

definition startTimer :: "jsval \<Rightarrow> CountdownTimer \<Rightarrow> CountdownTimer" where
  "startTimer duration t =
     (let t1 = stopTimer t;
          t2 = t1\<lparr>timeLeft := checked_duration duration\<rparr>;
          t3 = updateDisplay t2
      in t3\<lparr>intervalId := True\<rparr>)"

text \<open>
  One run of the interval's callback. The callback only runs while the interval is
  live, so on a stopped timer nothing happens.
\<close>

definition tick :: "CountdownTimer \<Rightarrow> CountdownTimer \<times> timer_event list" where
  "tick t =
     (if \<not> intervalId t then (t, [])
      else if num_gt0 (timeLeft t)
      then (updateDisplay
              (t\<lparr>timeLeft := num_dec (timeLeft t),
                 totalTimeSpent := totalTimeSpent t + 1\<rparr>), [])
      else (let t' = stopTimer t in (t', [TotalTimeSpent (accumulatedTime t')])))"

text \<open>\<open>n\<close> seconds pass: the callback runs \<open>n\<close> times.\<close>

fun ticks :: "nat \<Rightarrow> CountdownTimer \<Rightarrow> CountdownTimer \<times> timer_event list" where
  "ticks 0 t = (t, [])"
| "ticks (Suc n) t =
     (case tick t of (t1, e1) \<Rightarrow>
        (case ticks n t1 of (t2, e2) \<Rightarrow> (t2, e1 @ e2)))"

definition resetTotalTimeSpent :: "CountdownTimer \<Rightarrow> CountdownTimer" where
  "resetTotalTimeSpent t = t\<lparr>totalTimeSpent := 0\<rparr>"

definition resetAccumulatedTime :: "CountdownTimer \<Rightarrow> CountdownTimer" where
  "resetAccumulatedTime t = t\<lparr>accumulatedTime := 0\<rparr>"

definition resetAll :: "CountdownTimer \<Rightarrow> CountdownTimer" where
  "resetAll t = updateDisplay (resetAccumulatedTime (resetTotalTimeSpent (stopTimer t)))"

section \<open>quiz-question.js\<close>

text \<open>
  A property read on a value that a guard has shown to be neither \<open>null\<close> nor
  \<open>undefined\<close>: the read cannot throw.
\<close>

definition dot :: "jsval \<Rightarrow> string \<Rightarrow> jsval" where
  "dot v k = (case get_prop v k of Inl e \<Rightarrow> JUndefined | Inr x \<Rightarrow> x)"

text \<open>
  \<open>Object.keys\<close> of a value whose type is object: the keys of an object, the indices
  of an array.
\<close>

fun object_keys :: "jsval \<Rightarrow> string list" where
  "object_keys (JObj fs) = map fst (AList.clearjunk fs)"
| "object_keys (JArr xs) = map show_nat [0..<length xs]"
| "object_keys v = []"

text \<open>
  What \<open>#options-container\<close> holds: nothing (after \<open>render\<close>), the form of radio
  buttons with one value per alternative and a submit button, or the text input
  \<open>#answer-input\<close> with a submit button.
\<close>

datatype options_ui = No_options | Radio_form "string list" | Text_input

text \<open>
  The fields of \<open>QuizQuestion\<close> and the state of its shadow DOM: the text of the
  question, the options, the text typed into \<open>#answer-input\<close> and the value of the
  checked radio button.
\<close>

record QuizQuestion =
  qq_currentQuestion :: jsval
  question_container :: jsval
  options_container :: options_ui
  answer_input :: string
  checked_radio :: "string option"
  currentSelectedAnswer :: jsval

text \<open>The custom event 'answer-selected' with \<open>detail.selectedAnswer\<close>.\<close>

datatype question_event = AnswerSelected jsval

definition new_QuizQuestion :: QuizQuestion where
  "new_QuizQuestion =
     \<lparr>qq_currentQuestion = JNull, question_container = JUndefined,
      options_container = No_options, answer_input = [], checked_radio = None,
      currentSelectedAnswer = JUndefined\<rparr>"

definition setQuestion :: "jsval \<Rightarrow> QuizQuestion \<Rightarrow> QuizQuestion" where
  "setQuestion question q =
     (if \<not> truthy question then q
      else
        (let alternatives = dot question ''alternatives'';
             n = length (object_keys alternatives)
         in q\<lparr>qq_currentQuestion := question,
               question_container := dot question ''question'',
               options_container :=
                 (if truthy alternatives \<and> typeof_object alternatives \<and> 2 \<le> n \<and> n \<le> 10
                  then Radio_form (object_keys alternatives)
                  else Text_input),
               answer_input := [],
               checked_radio := None\<rparr>))"

text \<open>
  \<open>handleAnswerClick\<close>, called with an event object. With alternatives the target is
  compared with the string 'radio', which no element equals, so the answer is the value
  of the checked radio button of the shadow DOM, or stays \<open>null\<close> when there is none.
  Without alternatives the answer is the trimmed text of \<open>#answer-input\<close>; reading the
  value of an input that is not there throws.
\<close>

definition handleAnswerClick ::
    "QuizQuestion \<Rightarrow> js_error + QuizQuestion \<times> question_event list" where
  "handleAnswerClick q =
     (case get_prop (qq_currentQuestion q) ''alternatives'' of
        Inl e \<Rightarrow> Inl e
      | Inr alternatives \<Rightarrow>
          if truthy alternatives
          then
            (let selectedAnswer =
                   (case options_container q of
                      Radio_form ks \<Rightarrow>
                        (case checked_radio q of None \<Rightarrow> JNull | Some v \<Rightarrow> JStr v)
                    | _ \<Rightarrow> JNull)
             in Inr (q\<lparr>currentSelectedAnswer := selectedAnswer\<rparr>,
                     [AnswerSelected selectedAnswer]))
          else
            (case options_container q of
               Text_input \<Rightarrow>
                 (let selectedAnswer = JStr (trim (answer_input q))
                  in Inr (q\<lparr>currentSelectedAnswer := selectedAnswer\<rparr>,
                          [AnswerSelected selectedAnswer]))
             | _ \<Rightarrow> Inl TypeError))"

text \<open>
  The listeners \<open>setQuestion\<close> installs. A click on the submit button of the radio form
  calls \<open>handleAnswerClick\<close> only when a radio button is checked; a click on the submit
  button beside the text input, and the Enter key in the text input, always call it.
\<close>

definition click_submit ::
    "QuizQuestion \<Rightarrow> js_error + QuizQuestion \<times> question_event list" where
  "click_submit q =
     (case options_container q of
        No_options \<Rightarrow> Inr (q, [])
      | Radio_form ks \<Rightarrow>
          (case checked_radio q of None \<Rightarrow> Inr (q, []) | Some v \<Rightarrow> handleAnswerClick q)
      | Text_input \<Rightarrow> handleAnswerClick q)"

definition keydown ::
    "string \<Rightarrow> QuizQuestion \<Rightarrow> js_error + QuizQuestion \<times> question_event list" where
  "keydown key q =
     (case options_container q of
        Text_input \<Rightarrow> if key = ''Enter'' then handleAnswerClick q else Inr (q, [])
      | _ \<Rightarrow> Inr (q, []))"

text \<open>The player types into the text input, or checks a radio button.\<close>

definition type_answer :: "string \<Rightarrow> QuizQuestion \<Rightarrow> QuizQuestion" where
  "type_answer s q =
     (case options_container q of Text_input \<Rightarrow> q\<lparr>answer_input := s\<rparr> | _ \<Rightarrow> q)"

definition select_radio :: "string \<Rightarrow> QuizQuestion \<Rightarrow> QuizQuestion" where
  "select_radio k q =
     (case options_container q of
        Radio_form ks \<Rightarrow> if k \<in> set ks then q\<lparr>checked_radio := Some k\<rparr> else q
      | _ \<Rightarrow> q)"

section \<open>Web storage and JSON\<close>

text \<open>
  The text stored under a key that holds JSON, by what \<open>JSON.parse\<close> makes of it: no
  item (\<open>getItem\<close> returns \<open>null\<close>), a text that is not JSON, or the JSON text of a
  value.
\<close>

datatype item = NoItem | NotJSON | JSONText jsval

text \<open>\<open>localStorage\<close>: the keys the program uses.\<close>

record Storage =
  ls_highScores :: item
  ls_nickname :: "string option"
  ls_quizScore :: "string option"

text \<open>\<open>JSON.parse(localStorage.getItem(key))\<close>; \<open>JSON.parse(null)\<close> is \<open>null\<close>.\<close>

fun JSON_parse_item :: "item \<Rightarrow> js_error + jsval" where
  "JSON_parse_item NoItem = Inr JNull"
| "JSON_parse_item NotJSON = Inl SyntaxError"
| "JSON_parse_item (JSONText v) = Inr v"

text \<open>\<open>JSON.parse(localStorage.getItem('highScores')) || []\<close>\<close>

definition load_highScores :: "Storage \<Rightarrow> js_error + jsval" where
  "load_highScores ls =
     (case JSON_parse_item (ls_highScores ls) of
        Inl e \<Rightarrow> Inl e
      | Inr v \<Rightarrow> Inr (if truthy v then v else JArr []))"

text \<open>The properties \<open>JSON.stringify\<close> writes: one per key, those with a value.\<close>

definition written_fields :: "(string \<times> jsval option) list \<Rightarrow> (string \<times> jsval) list" where
  "written_fields fs =
     List.map_filter (\<lambda>(k, w). case w of None \<Rightarrow> None | Some v \<Rightarrow> Some (k, v))
       (AList.clearjunk fs)"

text \<open>
  The value read back from what \<open>JSON.stringify\<close> writes for a value inside an array
  or an object: a non-finite number and an \<open>undefined\<close> array element become \<open>null\<close>,
  a property whose value is \<open>undefined\<close> is left out.
\<close>

fun json_value :: "jsval \<Rightarrow> jsval" where
  "json_value JUndefined = JNull"
| "json_value JNull = JNull"
| "json_value (JBool b) = JBool b"
| "json_value (JNum (Fin n)) = JNum (Fin n)"
| "json_value (JNum x) = JNull"
| "json_value (JStr s) = JStr s"
| "json_value (JArr xs) = JArr (map json_value xs)"
| "json_value (JObj fs) =
     JObj (written_fields
       (map (\<lambda>(k, v). (k, if v = JUndefined then None else Some (json_value v))) fs))"

text \<open>
  \<open>localStorage.setItem(key, JSON.stringify(v))\<close>: \<open>JSON.stringify(undefined)\<close> is
  \<open>undefined\<close>, stored as the text "undefined", which is not JSON.
\<close>

definition JSON_stringify_item :: "jsval \<Rightarrow> item" where
  "JSON_stringify_item v = (if v = JUndefined then NotJSON else JSONText (json_value v))"

section \<open>The scores of a history\<close>

text \<open>
  ToNumber, which \<open>a.score - b.score\<close> applies to both scores. Of the number literals
  a string can hold, the decimal integers and the infinities are modelled.
\<close>

definition string_to_number :: "string \<Rightarrow> jsnum" where
  "string_to_number s =
     (let t = trim s in
      if t = [] then Fin 0
      else if t = ''Infinity'' \<or> t = ''+Infinity'' then PosInf
      else if t = ''-Infinity'' then NegInf
      else (case strip_sign t of (neg, ds) \<Rightarrow>
        if ds \<noteq> [] \<and> list_all (is_digit 10) ds
        then to_double ((if neg then - 1 else 1) *
                        int (foldl (\<lambda>a c. a * 10 + the (digit_of 10 c)) 0 ds))
        else NaN))"

fun to_number :: "jsval \<Rightarrow> jsnum" where
  "to_number JUndefined = NaN"
| "to_number JNull = Fin 0"
| "to_number (JBool b) = (if b then Fin 1 else Fin 0)"
| "to_number (JNum n) = n"
| "to_number (JStr s) = string_to_number s"
| "to_number (JArr xs) = string_to_number (to_string (JArr xs))"
| "to_number (JObj fs) = NaN"

text \<open>
  Ascending order of numbers: \<open>x \<le> y\<close>, which no comparison with \<open>NaN\<close> satisfies.
\<close>

fun num_le :: "jsnum \<Rightarrow> jsnum \<Rightarrow> bool" where
  "num_le NaN y = False"
| "num_le x NaN = False"
| "num_le NegInf y = True"
| "num_le x PosInf = True"
| "num_le (Fin a) (Fin b) = (a \<le> b)"
| "num_le x y = False"

text \<open>
  \<open>list.sort((a, b) => a.score - b.score)\<close>: \<open>a\<close> goes after \<open>b\<close> when the difference
  is positive. The sort is stable, so on scores that the comparator orders consistently
  the result is this insertion sort's; on other scores the order is the engine's own,
  and the program's results do not depend on it.
\<close>

definition score_after :: "jsval \<Rightarrow> jsval \<Rightarrow> bool" where
  "score_after a b = num_gt0 (num_sub (to_number (dot a ''score'')) (to_number (dot b ''score'')))"

text \<open>Ascending order of entries by score.\<close>

definition score_le :: "jsval \<Rightarrow> jsval \<Rightarrow> bool" where
  "score_le a b = num_le (to_number (dot a ''score'')) (to_number (dot b ''score''))"

fun insert_by_score :: "jsval \<Rightarrow> jsval list \<Rightarrow> jsval list" where
  "insert_by_score x [] = [x]"
| "insert_by_score x (y # ys) =
     (if score_after x y then y # insert_by_score x ys else x # y # ys)"

fun sort_by_score :: "jsval list \<Rightarrow> jsval list" where
  "sort_by_score [] = []"
| "sort_by_score (x # xs) = insert_by_score x (sort_by_score xs)"

text \<open>
  The predicate of \<open>find\<close> and \<open>findIndex\<close>:
  \<open>score.nickname === nickname && score.score === score\<close>, on an element that may be
  \<open>null\<close>.
\<close>

definition entry_matches :: "jsval \<Rightarrow> jsval \<Rightarrow> jsval \<Rightarrow> js_error + bool" where
  "entry_matches nick sc e =
     (case get_prop e ''nickname'' of
        Inl err \<Rightarrow> Inl err
      | Inr n \<Rightarrow>
          if strict_eq n nick
          then (case get_prop e ''score'' of Inl err \<Rightarrow> Inl err | Inr s \<Rightarrow> Inr (strict_eq s sc))
          else Inr False)"

text \<open>\<open>find\<close>: the first element that matches, \<open>undefined\<close> when none does.\<close>

fun find_entry :: "jsval \<Rightarrow> jsval \<Rightarrow> jsval list \<Rightarrow> js_error + jsval" where
  "find_entry nick sc [] = Inr JUndefined"
| "find_entry nick sc (e # es) =
     (case entry_matches nick sc e of
        Inl err \<Rightarrow> Inl err
      | Inr m \<Rightarrow> if m then Inr e else find_entry nick sc es)"

text \<open>\<open>findIndex(...) === -1\<close>: whether no element matches.\<close>

fun findIndex_is_minus1 :: "jsval \<Rightarrow> jsval \<Rightarrow> jsval list \<Rightarrow> js_error + bool" where
  "findIndex_is_minus1 nick sc [] = Inr True"
| "findIndex_is_minus1 nick sc (e # es) =
     (case entry_matches nick sc e of
        Inl err \<Rightarrow> Inl err
      | Inr m \<Rightarrow> if m then Inr False else findIndex_is_minus1 nick sc es)"


definition new_entry :: "jsval \<Rightarrow> jsval \<Rightarrow> jsval" where
  "new_entry nick sc = JObj [(''nickname'', nick), (''score'', sc)]"

section \<open>The high-score component\<close>

text \<open>
  The fields of \<open>highScore\<close> and its shadow DOM: \<open>this.scores\<close>, the rows of the
  list (rank, nickname, score), and whether \<open>connectedCallback\<close> reached the end, so
  that the 'high-score' listener is installed and the Try Again button is there.
\<close>

record HighScoreBoard =
  scores :: jsval
  score_list :: "(nat \<times> jsval \<times> jsval) list"
  listening :: bool

definition new_HighScoreBoard :: HighScoreBoard where
  "new_HighScoreBoard = \<lparr>scores = JUndefined, score_list = [], listening = False\<rparr>"

text \<open>The filter of \<open>render\<close>.\<close>

definition keeps_entry :: "jsval \<Rightarrow> bool" where
  "keeps_entry entry =
     (truthy entry \<and> typeof_number (dot entry ''score'') \<and> \<not> isNaN (dot entry ''score''))"

definition topFiveScores :: "jsval list \<Rightarrow> jsval list" where
  "topFiveScores xs = take 5 (sort_by_score (filter keeps_entry xs))"

definition scoreList :: "jsval list \<Rightarrow> (nat \<times> jsval \<times> jsval) list" where
  "scoreList xs =
     map (\<lambda>(index, entry). (index + 1, dot entry ''nickname'', dot entry ''score''))
       (enumerate 0 (topFiveScores xs))"

text \<open>
  \<open>render\<close>: a value that is not an array has no \<open>filter\<close>, and the call throws after
  \<open>this.scores\<close> is assigned.
\<close>

definition render_board :: "Storage \<Rightarrow> HighScoreBoard \<Rightarrow> HighScoreBoard \<times> js_error option" where
  "render_board ls b =
     (case load_highScores ls of
        Inl e \<Rightarrow> (b, Some e)
      | Inr v \<Rightarrow>
          (case v of
             JArr xs \<Rightarrow> (b\<lparr>scores := v, score_list := scoreList xs\<rparr>, None)
           | _ \<Rightarrow> (b\<lparr>scores := v\<rparr>, Some TypeError)))"

definition board_connectedCallback :: "Storage \<Rightarrow> HighScoreBoard \<times> js_error option" where
  "board_connectedCallback ls =
     (case load_highScores ls of
        Inl e \<Rightarrow> (new_HighScoreBoard, Some e)
      | Inr v \<Rightarrow>
          (case render_board ls (new_HighScoreBoard\<lparr>scores := JArr []\<rparr>) of
             (b, None) \<Rightarrow> (b\<lparr>listening := True\<rparr>, None)
           | (b, Some e) \<Rightarrow> (b, Some e)))"

text \<open>The listener of 'high-score' on the window.\<close>

definition on_high_score ::
    "jsval \<Rightarrow> jsval \<Rightarrow> Storage \<times> HighScoreBoard \<Rightarrow> (Storage \<times> HighScoreBoard) \<times> js_error option" where
  "on_high_score nick sc lb =
     (case lb of (ls, b) \<Rightarrow>
        if \<not> listening b then ((ls, b), None)
        else
          (case scores b of
             JArr xs \<Rightarrow>
               (case find_entry nick sc xs of
                  Inl e \<Rightarrow> ((ls, b), Some e)
                | Inr existingEntry \<Rightarrow>
                    if truthy existingEntry then ((ls, b), None)
                    else
                      (let b1 = b\<lparr>scores := JArr (xs @ [new_entry nick sc])\<rparr>;
                           ls1 = ls\<lparr>ls_highScores := JSON_stringify_item (scores b1)\<rparr>
                       in case render_board ls1 b1 of (b2, err) \<Rightarrow> ((ls1, b2), err)))
           | _ \<Rightarrow> ((ls, b), Some TypeError)))"

section \<open>The quiz application\<close>

text \<open>
  What a request brings back: \<open>fetch\<close> rejects (the network fails), \<open>response.json()\<close>
  rejects (the body is not JSON), or the body parses to a value.
\<close>

datatype response = NetworkFailure | BodyNotJSON | Body jsval

text \<open>
  What the application does to the outside, in order: \<open>console.error\<close> in a
  \<open>catch\<close>, an exception nothing catches, a request, and the events it dispatches
  ('set-question' with question and duration, 'stop-timer', 'high-score' with nickname
  and score).
\<close>

datatype effect =
    ConsoleError
  | Uncaught js_error
  | GET jsval
  | POST jsval jsval
  | SetQuestion jsval jsval
  | StopTimer
  | HighScore jsval jsval

text \<open>The requests among the effects.\<close>

fun is_request :: "effect \<Rightarrow> bool" where
  "is_request (GET url) = True"
| "is_request (POST url answer) = True"
| "is_request e = False"

text \<open>
  The fields of \<open>QuizApplication\<close>, the \<open>hidden\<close> class of its four children, the text
  in the nickname form's input, the children themselves, \<open>localStorage\<close>, and the
  effects so far. \<open>highScoreShown\<close> is not set by the constructor; \<open>undefined\<close> is
  \<open>False\<close> here.
\<close>

record QuizApplication =
  score :: int
  highScores :: jsval
  allowTimeoutAction :: bool
  nickname :: jsval
  currentQuestion :: jsval
  currentQuestionIndex :: jsval
  totalTime :: jsval
  highScoreShown :: bool
  nicknameForm_hidden :: bool
  quizQuestion_hidden :: bool
  countdownTimer_hidden :: bool
  highScore_hidden :: bool
  nickname_input :: string
  quizQuestion :: QuizQuestion
  countdownTimer :: CountdownTimer
  highScore :: HighScoreBoard
  localStorage :: Storage
  trace :: "effect list"

definition log :: "effect \<Rightarrow> QuizApplication \<Rightarrow> QuizApplication" where
  "log e s = s\<lparr>trace := trace s @ [e]\<rparr>"

text \<open>
  The constructor, \<open>connectedCallback\<close> and \<open>initializeComponents\<close>. The constructor
  parses the stored history and throws when that throws. An exception in the
  high-score child's \<open>connectedCallback\<close> is reported and leaves that child without
  its listener.
\<close>

definition new_QuizApplication :: "Storage \<Rightarrow> js_error + QuizApplication" where
  "new_QuizApplication ls =
     (case load_highScores ls of
        Inl e \<Rightarrow> Inl e
      | Inr v \<Rightarrow>
          (case board_connectedCallback ls of (b, err) \<Rightarrow>
             Inr \<lparr>score = 0, highScores = v, allowTimeoutAction = True,
                  nickname = JUndefined, currentQuestion = JUndefined,
                  currentQuestionIndex = JUndefined, totalTime = JUndefined,
                  highScoreShown = False,
                  nicknameForm_hidden = False, quizQuestion_hidden = False,
                  countdownTimer_hidden = True, highScore_hidden = True,
                  nickname_input = [],
                  quizQuestion = new_QuizQuestion, countdownTimer = new_CountdownTimer,
                  highScore = b, localStorage = ls,
                  trace = (case err of None \<Rightarrow> [] | Some e \<Rightarrow> [Uncaught e])\<rparr>))"

text \<open>
  'set-question' reaches the window, where the question display and the timer listen.
\<close>

definition dispatch_set_question :: "jsval \<Rightarrow> jsval \<Rightarrow> QuizApplication \<Rightarrow> QuizApplication" where
  "dispatch_set_question question duration s =
     log (SetQuestion question duration)
       (s\<lparr>quizQuestion := setQuestion question (quizQuestion s),
          countdownTimer := startTimer duration (countdownTimer s)\<rparr>)"

text \<open>'stop-timer' on the window: the timer's listener calls \<open>stopTimer\<close>.\<close>

definition dispatch_stop_timer :: "QuizApplication \<Rightarrow> QuizApplication" where
  "dispatch_stop_timer s = log StopTimer (s\<lparr>countdownTimer := stopTimer (countdownTimer s)\<rparr>)"

text \<open>
  'high-score' on the window: the high-score component's listener runs; an exception
  in a listener is reported, not thrown to the dispatcher.
\<close>

definition dispatch_high_score :: "jsval \<Rightarrow> jsval \<Rightarrow> QuizApplication \<Rightarrow> QuizApplication" where
  "dispatch_high_score nick sc s =
     (case on_high_score nick sc (localStorage s, highScore s) of
        ((ls, b), err) \<Rightarrow>
          (let s1 = log (HighScore nick sc) (s\<lparr>localStorage := ls, highScore := b\<rparr>)
           in case err of None \<Rightarrow> s1 | Some e \<Rightarrow> log (Uncaught e) s1))"

text \<open>
  \<open>showHighScore(accumulatedTime)\<close>, the argument written \<open>seconds\<close>. The result is
  the state when the function returns or throws, and the exception if it throws.
\<close>

definition showHighScore ::
    "jsval \<Rightarrow> QuizApplication \<Rightarrow> QuizApplication \<times> js_error option" where
  "showHighScore seconds s =
     (if highScoreShown s then (s, None)
      else
        (let s1 = dispatch_stop_timer s;
             s2 = s1\<lparr>highScoreShown := True, quizQuestion_hidden := True,
                     countdownTimer_hidden := True, nicknameForm_hidden := True\<rparr>
         in case load_highScores (localStorage s2) of
              Inl e \<Rightarrow> (s2, Some e)
            | Inr stored \<Rightarrow>
                (case nickname s2 of
                   JStr n \<Rightarrow>
                     if trim n \<noteq> []
                     then
                       (case stored of
                          JArr xs \<Rightarrow>
                            (case findIndex_is_minus1 (JStr n) seconds xs of
                               Inl e \<Rightarrow> (s2, Some e)
                             | Inr absent \<Rightarrow>
                                 if absent
                                 then
                                   (let sorted = sort_by_score (xs @ [new_entry (JStr n) seconds]);
                                        s3 = s2\<lparr>localStorage := (localStorage s2)
                                               \<lparr>ls_highScores := JSON_stringify_item (JArr sorted)\<rparr>\<rparr>;
                                        s4 = dispatch_high_score (JStr n) seconds s3
                                    in (s4\<lparr>highScore_hidden := False\<rparr>, None))
                                 else (s2\<lparr>highScore_hidden := False\<rparr>, None))
                        | _ \<Rightarrow> (s2, Some TypeError))
                     else (s2\<lparr>highScore_hidden := False\<rparr>, None)
                 | _ \<Rightarrow> (s2, Some TypeError))))"

text \<open>A call of \<open>showHighScore\<close> from a listener: an exception is not caught.\<close>

definition showHighScore_uncaught :: "jsval \<Rightarrow> QuizApplication \<Rightarrow> QuizApplication" where
  "showHighScore_uncaught seconds s =
     (case showHighScore seconds s of
        (s', None) \<Rightarrow> s'
      | (s', Some e) \<Rightarrow> log (Uncaught e) s')"

text \<open>
  The duration each of the two fetching functions computes from \<open>data.limit\<close>:
  \<open>data.limit ? parseInt(data.limit) : 20\<close> in \<open>fetchQuestions\<close> and
  \<open>parseInt(this.currentQuestion.limit) || 20\<close> in \<open>fetchNextQuestion\<close>.
\<close>

definition fetchQuestions_duration :: "jsval \<Rightarrow> jsval" where
  "fetchQuestions_duration limit = (if truthy limit then JNum (parseInt limit) else JNum (Fin 20))"

definition fetchNextQuestion_duration :: "jsval \<Rightarrow> jsval" where
  "fetchNextQuestion_duration limit =
     (let parsed = JNum (parseInt limit) in if truthy parsed then parsed else JNum (Fin 20))"

text \<open>
  \<open>fetchQuestions(url)\<close>, with what the request brings back. Everything is inside the
  \<open>try\<close>; the \<open>catch\<close> logs.
\<close>

definition fetchQuestions :: "jsval \<Rightarrow> response \<Rightarrow> QuizApplication \<Rightarrow> QuizApplication" where
  "fetchQuestions url r s =
     (let s0 = log (GET url) s in
      case r of
        NetworkFailure \<Rightarrow> log ConsoleError s0
      | BodyNotJSON \<Rightarrow> log ConsoleError s0
      | Body data \<Rightarrow>
          (let s1 = s0\<lparr>currentQuestion := data\<rparr> in
           case get_prop data ''limit'' of
             Inl e \<Rightarrow> log ConsoleError s1
           | Inr limit \<Rightarrow>
               dispatch_set_question data (fetchQuestions_duration limit) s1))"

text \<open>
  \<open>fetchNextQuestion(url)\<close>. The \<open>catch\<close> logs and calls \<open>showHighScore\<close> with
  \<open>this.totalTime\<close>; an exception of that call leaves the function.
\<close>

definition fetchNextQuestion ::
    "jsval \<Rightarrow> response \<Rightarrow> QuizApplication \<Rightarrow> QuizApplication \<times> js_error option" where
  "fetchNextQuestion url r s =
     (let s0 = log (GET url) s in
      case r of
        NetworkFailure \<Rightarrow> (let s1 = log ConsoleError s0 in showHighScore (totalTime s1) s1)
      | BodyNotJSON \<Rightarrow> (let s1 = log ConsoleError s0 in showHighScore (totalTime s1) s1)
      | Body data \<Rightarrow>
          (let s1 = s0\<lparr>currentQuestion := data\<rparr> in
           case get_prop data ''limit'' of
             Inl e \<Rightarrow> (let s2 = log ConsoleError s1 in showHighScore (totalTime s2) s2)
           | Inr limit \<Rightarrow>
               if truthy data
               then (dispatch_set_question data (fetchNextQuestion_duration limit) s1, None)
               else (s1, None)))"

text \<open>
  \<open>submitAnswer(answer)\<close>, with what the POST brings back and what the request for the
  next question would bring back. Every exception ends in a \<open>catch\<close> that logs.
\<close>

definition submitAnswer ::
    "jsval \<Rightarrow> response \<Rightarrow> response \<Rightarrow> QuizApplication \<Rightarrow> QuizApplication" where
  "submitAnswer answer r rnext s =
     (case get_prop (currentQuestion s) ''nextURL'' of
        Inl e \<Rightarrow> log ConsoleError s
      | Inr url \<Rightarrow>
          (let s0 = log (POST url answer) s in
           case r of
             NetworkFailure \<Rightarrow> log ConsoleError s0
           | BodyNotJSON \<Rightarrow> log ConsoleError s0
           | Body data \<Rightarrow>
               if truthy data \<and> truthy (dot data ''nextURL'')
               then
                 (case fetchNextQuestion (dot data ''nextURL'') rnext s0 of
                    (s1, None) \<Rightarrow> s1
                  | (s1, Some e) \<Rightarrow> log ConsoleError s1)
               else
                 (let s1 = s0\<lparr>countdownTimer := stopTimer (countdownTimer s0)\<rparr> in
                  case showHighScore (JNum (Fin (accumulatedTime (countdownTimer s1)))) s1 of
                    (s2, None) \<Rightarrow> s2
                  | (s2, Some e) \<Rightarrow> log ConsoleError s2)))"

text \<open>
  \<open>restartQuiz\<close>. The nickname form is rendered, so its input is there and is cleared.
\<close>

definition restartQuiz :: "QuizApplication \<Rightarrow> QuizApplication" where
  "restartQuiz s =
     (let s1 = dispatch_stop_timer s;
          s2 = s1\<lparr>countdownTimer := resetAll (countdownTimer s1)\<rparr>;
          s3 = s2\<lparr>highScore_hidden := True,
                  currentQuestionIndex := JNum (Fin 0),
                  score := 0,
                  localStorage := (localStorage s2)\<lparr>ls_quizScore := None, ls_nickname := None\<rparr>\<rparr>;
          s4 = s3\<lparr>nickname_input := []\<rparr>
      in s4\<lparr>quizQuestion_hidden := True, countdownTimer_hidden := True,
             nicknameForm_hidden := False, highScoreShown := False\<rparr>)"

subsection \<open>The listeners\<close>

text \<open>The entry URL of the quiz.\<close>

definition entry_url :: jsval where
  "entry_url = JStr ''https://courselab.lnu.se/quiz/question/1''"

text \<open>'nickname' from the nickname form, with what the first request brings back.\<close>

definition on_nickname :: "string \<Rightarrow> response \<Rightarrow> QuizApplication \<Rightarrow> QuizApplication" where
  "on_nickname n r s =
     fetchQuestions entry_url r
       (s\<lparr>nicknameForm_hidden := True, quizQuestion_hidden := False,
          countdownTimer_hidden := False, nickname := JStr n,
          localStorage := (localStorage s)\<lparr>ls_nickname := Some n\<rparr>,
          score := 0\<rparr>)"

text \<open>The nickname form's submit listener: an empty trimmed nickname dispatches nothing.\<close>

definition submit_nickname :: "response \<Rightarrow> QuizApplication \<Rightarrow> QuizApplication" where
  "submit_nickname r s =
     (let n = trim (nickname_input s) in if n = [] then s else on_nickname n r s)"

text \<open>'timeout', 'total-time-spent' and 'quiz-completed'.\<close>

definition on_timeout :: "QuizApplication \<Rightarrow> QuizApplication" where
  "on_timeout s =
     (if allowTimeoutAction s
      then showHighScore_uncaught (JNum (Fin (accumulatedTime (countdownTimer s)))) s
      else s)"

definition on_total_time_spent :: "int \<Rightarrow> QuizApplication \<Rightarrow> QuizApplication" where
  "on_total_time_spent t s =
     (let s1 = s\<lparr>totalTime := JNum (Fin t)\<rparr> in showHighScore_uncaught (totalTime s1) s1)"

definition on_quiz_completed :: "jsval \<Rightarrow> QuizApplication \<Rightarrow> QuizApplication" where
  "on_quiz_completed seconds s = showHighScore_uncaught seconds s"

text \<open>
  'try-again' from the high-score component: the application's listener restarts the
  quiz, then the event reaches the window, where the timer's listener calls \<open>resetAll\<close>.
\<close>

definition on_try_again :: "QuizApplication \<Rightarrow> QuizApplication" where
  "on_try_again s =
     (let s1 = restartQuiz s in s1\<lparr>countdownTimer := resetAll (countdownTimer s1)\<rparr>)"

text \<open>A second passes: the timer's callback runs, and its event reaches the application.\<close>

fun deliver_timer_events :: "timer_event list \<Rightarrow> QuizApplication \<Rightarrow> QuizApplication" where
  "deliver_timer_events [] s = s"
| "deliver_timer_events (TotalTimeSpent t # es) s = deliver_timer_events es (on_total_time_spent t s)"

definition app_tick :: "QuizApplication \<Rightarrow> QuizApplication" where
  "app_tick s =
     (case tick (countdownTimer s) of
        (t, es) \<Rightarrow> deliver_timer_events es (s\<lparr>countdownTimer := t\<rparr>))"

text \<open>
  An answer event of the question display reaches \<open>submitAnswer\<close>; an exception in a
  listener of the display is reported.
\<close>

fun deliver_answers ::
    "question_event list \<Rightarrow> response \<Rightarrow> response \<Rightarrow> QuizApplication \<Rightarrow> QuizApplication" where
  "deliver_answers [] r rnext s = s"
| "deliver_answers (AnswerSelected a # es) r rnext s =
     deliver_answers es r rnext (submitAnswer a r rnext s)"

definition from_display ::
    "(js_error + QuizQuestion \<times> question_event list) \<Rightarrow> response \<Rightarrow> response \<Rightarrow>
     QuizApplication \<Rightarrow> QuizApplication" where
  "from_display res r rnext s =
     (case res of
        Inl e \<Rightarrow> log (Uncaught e) s
      | Inr (q, es) \<Rightarrow> deliver_answers es r rnext (s\<lparr>quizQuestion := q\<rparr>))"

text \<open>
  What can happen to the application: the player acts on a component that is shown
  (a hidden one takes no input), a second passes, or one of the events the application
  listens for arrives. A request is answered within the step that issues it.
\<close>

datatype event =
    Type_nickname string
  | Submit_nickname response
  | Type_answer string
  | Select_radio string
  | Click_submit response response
  | Keydown string response response
  | Tick
  | Timeout
  | Quiz_completed jsval
  | Click_try_again

fun step :: "event \<Rightarrow> QuizApplication \<Rightarrow> QuizApplication" where
  "step (Type_nickname n) s = (if nicknameForm_hidden s then s else s\<lparr>nickname_input := n\<rparr>)"
| "step (Submit_nickname r) s = (if nicknameForm_hidden s then s else submit_nickname r s)"
| "step (Type_answer a) s =
     (if quizQuestion_hidden s then s else s\<lparr>quizQuestion := type_answer a (quizQuestion s)\<rparr>)"
| "step (Select_radio k) s =
     (if quizQuestion_hidden s then s else s\<lparr>quizQuestion := select_radio k (quizQuestion s)\<rparr>)"
| "step (Click_submit r rnext) s =
     (if quizQuestion_hidden s then s else from_display (click_submit (quizQuestion s)) r rnext s)"
| "step (Keydown key r rnext) s =
     (if quizQuestion_hidden s then s else from_display (keydown key (quizQuestion s)) r rnext s)"
| "step Tick s = app_tick s"
| "step Timeout s = on_timeout s"
| "step (Quiz_completed t) s = on_quiz_completed t s"
| "step Click_try_again s =
     (if highScore_hidden s \<or> \<not> listening (highScore s) then s else on_try_again s)"

text \<open>
  What completion handling settles: the guard, whether the high-score board is shown,
  the stored history, and the board.
\<close>

definition completion_view :: "QuizApplication \<Rightarrow> bool \<times> bool \<times> item \<times> HighScoreBoard" where
  "completion_view s =
     (highScoreShown s, highScore_hidden s, ls_highScores (localStorage s), highScore s)"

text \<open>
  The high-score component is in step with the storage: its listener is installed and
  \<open>this.scores\<close> is the array that the stored history loads as.
\<close>

definition board_in_step :: "QuizApplication \<Rightarrow> bool" where
  "board_in_step s =
     (listening (highScore s) \<and>
      (case scores (highScore s) of
         JArr H \<Rightarrow> load_highScores (localStorage s) = Inr (JArr H)
       | _ \<Rightarrow> False))"

section \<open>A fresh application and a question\<close>

text \<open>
  The states and inputs at which the theorems below are evaluated: an empty
  \<open>localStorage\<close>, the application as the constructor and \<open>connectedCallback\<close> leave
  it on that storage, and the question of the specification's scenario.
\<close>

definition empty_storage :: Storage where
  "empty_storage = \<lparr>ls_highScores = NoItem, ls_nickname = None, ls_quizScore = None\<rparr>"

definition fresh_app :: QuizApplication where
  "fresh_app =
     \<lparr>score = 0, highScores = JArr [], allowTimeoutAction = True,
      nickname = JUndefined, currentQuestion = JUndefined,
      currentQuestionIndex = JUndefined, totalTime = JUndefined,
      highScoreShown = False,
      nicknameForm_hidden = False, quizQuestion_hidden = False,
      countdownTimer_hidden = True, highScore_hidden = True,
      nickname_input = [],
      quizQuestion = new_QuizQuestion, countdownTimer = new_CountdownTimer,
      highScore = \<lparr>scores = JArr [], score_list = [], listening = True\<rparr>,
      localStorage = empty_storage, trace = []\<rparr>"

definition two_plus_two :: jsval where
  "two_plus_two =
     JObj [(''question'', JStr ''2+2?''),
           (''alternatives'', JObj [(''a'', JStr ''3''), (''b'', JStr ''4'')]),
           (''nextURL'', JStr ''/q/2''),
           (''limit'', JNum (Fin 10))]"

text \<open>A free-text question whose limit is negative.\<close>

definition capital_question :: jsval where
  "capital_question =
     JObj [(''question'', JStr ''Capital of Sweden?''),
           (''nextURL'', JStr ''/q/3''),
           (''limit'', JNum (Fin (- 5)))]"

text \<open>Ada plays: she submits her nickname and the first question arrives.\<close>

definition ada_playing :: QuizApplication where
  "ada_playing =
     step (Submit_nickname (Body two_plus_two)) (step (Type_nickname ''Ada'') fresh_app)"



text \<open>
  A stored history of eleven elements: seven results with a finite score, one with an
  infinite score, and three that are no results (\<open>null\<close>, a score that is a text, no
  score).
\<close>

definition stored_history :: "jsval list" where
  "stored_history =
     [new_entry (JStr ''Bob'') (JNum (Fin 5)),
      JNull,
      new_entry (JStr ''Ada'') (JNum (Fin 3)),
      new_entry (JStr ''Eve'') (JStr ''7''),
      new_entry (JStr ''Cy'') (JNum (Fin 9)),
      JObj [(''nickname'', JStr ''Dan'')],
      new_entry (JStr ''Eli'') (JNum (Fin 3)),
      new_entry (JStr ''Fay'') (JNum (Fin 12)),
      new_entry (JStr ''Gus'') (JNum (Fin 1)),
      new_entry (JStr ''Hal'') (JNum PosInf),
      new_entry (JStr ''Ida'') (JNum (Fin 20))]"

text \<open>
  Ada answers after three seconds; the response to her answer has no next question, so
  her session is complete.
\<close>

definition ada_done :: QuizApplication where
  "ada_done =
     step (Click_submit (Body (JObj [(''message'', JStr ''done'')])) NetworkFailure)
       (step (Select_radio ''b'') (step Tick (step Tick (step Tick ada_playing))))"

text \<open>A question whose alternatives are an empty object.\<close>

definition empty_alternatives_question :: jsval where
  "empty_alternatives_question =
     JObj [(''question'', JStr ''Capital of Sweden?''),
           (''alternatives'', JObj []),
           (''nextURL'', JStr ''/q/3'')]"

section \<open>The numeral of an integer is read back by parseInt\<close>




















text \<open>
  Beyond \<open>2\<^sup>5\<^sup>3\<close> a numeral is read as the nearest double, and white space before the
  digits includes the no-break space.
\<close>

lemma parseInt_rounds_to_double:
  "parseInt (JStr ''9007199254740993'') = Fin 9007199254740992"
  "parseInt (JStr ''9007199254740995'') = Fin 9007199254740996"
  "parseInt (JStr ''-9007199254740993'') = Fin (- 9007199254740992)"
  "parseInt (JStr ''1000000000000000000000'') = Fin 1000000000000000000000"
  "parseInt (JStr ''0x20000000000001'') = Fin 9007199254740992"
  by (simp_all add: parseInt_def parseInt_string_def is_ws_def is_digit_def digit_of_def
      to_double_def bit_length.simps Let_def)

lemma parseInt_skips_no_break_space:
  "parseInt (JStr [CHR 0xA0, CHR ''5'']) = Fin 5"
  "trim [CHR 0xA0, CHR ''a'', CHR 0xA0] = ''a''"
  by code_simp+

section \<open>The duration of a fetched question\<close>

lemma fresh_app_is_new: "new_QuizApplication empty_storage = Inr fresh_app"
  by (simp add: new_QuizApplication_def load_highScores_def empty_storage_def fresh_app_def
      board_connectedCallback_def render_board_def new_HighScoreBoard_def scoreList_def
      topFiveScores_def)








text \<open>
  Limits given as text: a text with no digit to read gives 20, and so does the empty
  text; white space before the digits is skipped, the no-break space too; the text
  \<open>"0"\<close> gives 0 on the first fetch and 20 on the later ones.
\<close>

lemma duration_of_text_examples:
  "checked_duration (fetchQuestions_duration (JStr ''soon'')) = Fin 20"
  "checked_duration (fetchNextQuestion_duration (JStr ''soon'')) = Fin 20"
  "checked_duration (fetchQuestions_duration (JStr [])) = Fin 20"
  "checked_duration (fetchNextQuestion_duration (JStr [])) = Fin 20"
  "checked_duration (fetchQuestions_duration (JStr [CHR 0xA0, CHR ''5''])) = Fin 5"
  "checked_duration (fetchNextQuestion_duration (JStr [CHR 0xA0, CHR ''5''])) = Fin 5"
  "checked_duration (fetchQuestions_duration (JStr '' 15 seconds'')) = Fin 15"
  "checked_duration (fetchQuestions_duration (JStr ''0'')) = Fin 0"
  "checked_duration (fetchNextQuestion_duration (JStr ''0'')) = Fin 20"
  by code_simp+




section \<open>Resetting the timer\<close>

lemma resetAll_fields:
  "\<not> intervalId (resetAll t)"
  "totalTimeSpent (resetAll t) = 0"
  "accumulatedTime (resetAll t) = 0"
  "timeLeft (resetAll t) = timeLeft t"
  "timer_display (resetAll t) = timeLeft t"
  by (simp_all add: resetAll_def updateDisplay_def resetAccumulatedTime_def
      resetTotalTimeSpent_def stopTimer_def)

text \<open>
  C2. \<open>resetAll\<close> stops the timer and clears \<open>totalTimeSpent\<close> and
  \<open>accumulatedTime\<close>, but it does not assign \<open>timeLeft\<close>: on a timer started with 10
  seconds that has counted 3 of them, the remaining time stays 7 and the display is
  rewritten with 7. So it is after Ada, who answered with 7 seconds left, presses Try
  Again.
\<close>

theorem resetAll_leaves_timeLeft:
  "resetAll (fst (ticks 3 (startTimer (JNum (Fin 10)) new_CountdownTimer))) =
     \<lparr>timeLeft = Fin 7, intervalId = False, totalTimeSpent = 0, accumulatedTime = 0,
      timer_display = Fin 7\<rparr> \<and>
   countdownTimer (step Click_try_again ada_done) =
     \<lparr>timeLeft = Fin 7, intervalId = False, totalTimeSpent = 0, accumulatedTime = 0,
      timer_display = Fin 7\<rparr>"
  by code_simp

section \<open>Loading the stored history\<close>

lemma load_highScores_item [simp]:
  "load_highScores (ls\<lparr>ls_highScores := NoItem\<rparr>) = Inr (JArr [])"
  "load_highScores (ls\<lparr>ls_highScores := NotJSON\<rparr>) = Inl SyntaxError"
  "load_highScores (ls\<lparr>ls_highScores := JSONText v\<rparr>) = Inr (if truthy v then v else JArr [])"
  by (simp_all add: load_highScores_def)

lemma showHighScore_guarded: "highScoreShown s \<Longrightarrow> showHighScore t s = (s, None)"
  by (simp add: showHighScore_def)





section \<open>What completion handling leaves alone\<close>

lemma trace_log [simp]: "trace (log e s) = trace s @ [e]"
  by (simp add: log_def)

lemma log_fields [simp]:
  "highScoreShown (log e s) = highScoreShown s"
  "quizQuestion_hidden (log e s) = quizQuestion_hidden s"
  "countdownTimer_hidden (log e s) = countdownTimer_hidden s"
  "nicknameForm_hidden (log e s) = nicknameForm_hidden s"
  "highScore_hidden (log e s) = highScore_hidden s"
  "countdownTimer (log e s) = countdownTimer s"
  "quizQuestion (log e s) = quizQuestion s"
  "highScore (log e s) = highScore s"
  "localStorage (log e s) = localStorage s"
  "nickname (log e s) = nickname s"
  "totalTime (log e s) = totalTime s"
  "currentQuestion (log e s) = currentQuestion s"
  "allowTimeoutAction (log e s) = allowTimeoutAction s"
  by (simp_all add: log_def)

lemma dispatch_high_score_fields [simp]:
  "highScoreShown (dispatch_high_score n sc s) = highScoreShown s"
  "quizQuestion_hidden (dispatch_high_score n sc s) = quizQuestion_hidden s"
  "countdownTimer_hidden (dispatch_high_score n sc s) = countdownTimer_hidden s"
  "nicknameForm_hidden (dispatch_high_score n sc s) = nicknameForm_hidden s"
  "countdownTimer (dispatch_high_score n sc s) = countdownTimer s"
  by (simp_all add: dispatch_high_score_def Let_def split: prod.splits option.splits)

lemma dispatch_high_score_requests [simp]:
  "filter is_request (trace (dispatch_high_score n sc s)) = filter is_request (trace s)"
  by (simp add: dispatch_high_score_def Let_def split: prod.splits option.splits)

lemma showHighScore_sets:
  assumes "\<not> highScoreShown s"
  shows "highScoreShown (fst (showHighScore t s))"
    and "quizQuestion_hidden (fst (showHighScore t s))"
    and "countdownTimer_hidden (fst (showHighScore t s))"
    and "nicknameForm_hidden (fst (showHighScore t s))"
    and "countdownTimer (fst (showHighScore t s)) = stopTimer (countdownTimer s)"
  using assms
  by (simp_all add: showHighScore_def dispatch_stop_timer_def Let_def
      split: sum.splits jsval.splits)

lemma showHighScore_requests:
  "filter is_request (trace (fst (showHighScore t s))) = filter is_request (trace s)"
  by (simp add: showHighScore_def dispatch_stop_timer_def Let_def
      split: sum.splits jsval.splits)

lemma stopTimer_stopped [simp]: "\<not> intervalId (stopTimer t)"
  by (simp add: stopTimer_def)

section \<open>A fetch that fails\<close>

lemma fetchQuestions_fails:
  "r = NetworkFailure \<or> r = BodyNotJSON \<Longrightarrow>
   fetchQuestions url r s = s\<lparr>trace := trace s @ [GET url, ConsoleError]\<rparr>"
  by (auto simp: fetchQuestions_def log_def Let_def)

lemma fetchNextQuestion_fails:
  "r = NetworkFailure \<or> r = BodyNotJSON \<Longrightarrow>
   fetchNextQuestion url r s =
     showHighScore (totalTime s) (s\<lparr>trace := trace s @ [GET url, ConsoleError]\<rparr>)"
  by (auto simp: fetchNextQuestion_def log_def Let_def)

text \<open>
  C4, as amended. When the request fails or its body is not JSON: \<open>fetchQuestions\<close>
  (the first question) logs the error and changes nothing else; \<open>fetchNextQuestion\<close>
  (a following question) logs the error and calls \<open>showHighScore\<close> with the last
  recorded total time. Neither issues another request. So a failure on a following
  question, unless completion handling has run already, ends the session: the guard is
  set, the timer is stopped, and the question, the timer and the form are hidden; when
  it has run already, only the log grows.
\<close>

theorem fetch_failure:
  assumes "r = NetworkFailure \<or> r = BodyNotJSON"
  shows
    "fetchQuestions url r s = s\<lparr>trace := trace s @ [GET url, ConsoleError]\<rparr> \<and>
     fetchNextQuestion url r s =
       showHighScore (totalTime s) (s\<lparr>trace := trace s @ [GET url, ConsoleError]\<rparr>) \<and>
     filter is_request (trace (fst (fetchNextQuestion url r s))) =
       filter is_request (trace s) @ [GET url] \<and>
     (\<not> highScoreShown s \<longrightarrow>
        highScoreShown (fst (fetchNextQuestion url r s)) \<and>
        \<not> intervalId (countdownTimer (fst (fetchNextQuestion url r s))) \<and>
        quizQuestion_hidden (fst (fetchNextQuestion url r s)) \<and>
        countdownTimer_hidden (fst (fetchNextQuestion url r s)) \<and>
        nicknameForm_hidden (fst (fetchNextQuestion url r s))) \<and>
     (highScoreShown s \<longrightarrow>
        fetchNextQuestion url r s = (s\<lparr>trace := trace s @ [GET url, ConsoleError]\<rparr>, None))"
proof -
  let ?s = "s\<lparr>trace := trace s @ [GET url, ConsoleError]\<rparr>"
  note next_eq = fetchNextQuestion_fails [OF assms, of url s]
  have "filter is_request (trace (fst (showHighScore (totalTime s) ?s))) =
      filter is_request (trace s) @ [GET url]"
    by (simp add: showHighScore_requests)
  moreover have "highScoreShown (fst (showHighScore (totalTime s) ?s)) \<and>
      \<not> intervalId (countdownTimer (fst (showHighScore (totalTime s) ?s))) \<and>
      quizQuestion_hidden (fst (showHighScore (totalTime s) ?s)) \<and>
      countdownTimer_hidden (fst (showHighScore (totalTime s) ?s)) \<and>
      nicknameForm_hidden (fst (showHighScore (totalTime s) ?s))"
    if "\<not> highScoreShown s"
    using that by (simp add: showHighScore_sets)
  moreover have "showHighScore (totalTime s) ?s = (?s, None)" if "highScoreShown s"
    using that by (simp add: showHighScore_guarded)
  ultimately show ?thesis
    unfolding next_eq using fetchQuestions_fails [OF assms, of url s] by simp
qed

lemma ada_playing_fields:
  "\<not> highScoreShown ada_playing"
  "\<not> quizQuestion_hidden ada_playing"
  "\<not> countdownTimer_hidden ada_playing"
  "intervalId (countdownTimer ada_playing)"
  "nickname ada_playing = JStr ''Ada''"
  "totalTime ada_playing = JUndefined"
  "localStorage ada_playing = empty_storage\<lparr>ls_nickname := Some ''Ada''\<rparr>"
  "highScore ada_playing = \<lparr>scores = JArr [], score_list = [], listening = True\<rparr>"
  "currentQuestion ada_playing = two_plus_two"
  by (simp_all add: ada_playing_def fresh_app_def submit_nickname_def on_nickname_def
      fetchQuestions_def dispatch_set_question_def log_def two_plus_two_def Let_def trim_def
      is_ws_def startTimer_def updateDisplay_def)

theorem fetch_failure_witness:
  "(NetworkFailure = NetworkFailure \<or> NetworkFailure = BodyNotJSON) \<and>
   fetchQuestions entry_url NetworkFailure fresh_app =
     fresh_app\<lparr>trace := trace fresh_app @ [GET entry_url, ConsoleError]\<rparr> \<and>
   \<not> highScoreShown ada_playing \<and>
   highScoreShown (fst (fetchNextQuestion (JStr ''/q/2'') NetworkFailure ada_playing)) \<and>
   quizQuestion_hidden (fst (fetchNextQuestion (JStr ''/q/2'') NetworkFailure ada_playing))"
proof -
  have h: "NetworkFailure = NetworkFailure \<or> NetworkFailure = BodyNotJSON"
    by simp
  note first = fetch_failure [OF h, of entry_url fresh_app]
    and later = fetch_failure [OF h, of "JStr ''/q/2''" ada_playing]
  from first have 1: "fetchQuestions entry_url NetworkFailure fresh_app =
      fresh_app\<lparr>trace := trace fresh_app @ [GET entry_url, ConsoleError]\<rparr>"
    by (rule conjunct1)
  from later ada_playing_fields(1)
  have 2: "highScoreShown (fst (fetchNextQuestion (JStr ''/q/2'') NetworkFailure ada_playing)) \<and>
      quizQuestion_hidden (fst (fetchNextQuestion (JStr ''/q/2'') NetworkFailure ada_playing))"
    by blast
  from h 1 2 ada_playing_fields(1) show ?thesis
    by blast
qed

text \<open>
  C4, as stated, fails for a following question: while Ada plays, a request for the
  next question that fails ends her session. The guard is set, the timer stops, the
  question is hidden, the high-score board is shown, and an entry without a score is
  stored.
\<close>

theorem next_fetch_failure_counterexample:
  "\<not> highScoreShown ada_playing \<and>
   \<not> quizQuestion_hidden ada_playing \<and>
   intervalId (countdownTimer ada_playing) \<and>
   highScoreShown (fst (fetchNextQuestion (JStr ''/q/2'') NetworkFailure ada_playing)) \<and>
   quizQuestion_hidden (fst (fetchNextQuestion (JStr ''/q/2'') NetworkFailure ada_playing)) \<and>
   \<not> intervalId (countdownTimer (fst (fetchNextQuestion (JStr ''/q/2'') NetworkFailure
     ada_playing))) \<and>
   \<not> highScore_hidden (fst (fetchNextQuestion (JStr ''/q/2'') NetworkFailure ada_playing)) \<and>
   ls_highScores (localStorage (fst (fetchNextQuestion (JStr ''/q/2'') NetworkFailure
     ada_playing))) = JSONText (JArr [JObj [(''nickname'', JStr ''Ada'')]])"
proof -
  let ?s = "ada_playing\<lparr>trace := trace ada_playing @ [GET (JStr ''/q/2''), ConsoleError]\<rparr>"
  have eq: "fetchNextQuestion (JStr ''/q/2'') NetworkFailure ada_playing =
      showHighScore JUndefined ?s"
    by (simp add: fetchNextQuestion_fails ada_playing_fields)
  have g: "\<not> highScoreShown ?s"
    by (simp add: ada_playing_fields)
  have shown: "\<not> highScore_hidden (fst (showHighScore JUndefined ?s)) \<and>
      ls_highScores (localStorage (fst (showHighScore JUndefined ?s))) =
        JSONText (JArr [JObj [(''nickname'', JStr ''Ada'')]])"
    by (simp add: showHighScore_def dispatch_stop_timer_def dispatch_high_score_def
        on_high_score_def ada_playing_fields empty_storage_def load_highScores_def
        entry_matches_def new_entry_def JSON_stringify_item_def written_fields_def
        render_board_def List.map_filter_def AList.clearjunk.simps AList.delete_eq
        trim_def is_ws_def score_after_def Let_def log_def)
  show ?thesis
    unfolding eq using shown showHighScore_sets [OF g, of JUndefined]
    by (simp add: ada_playing_fields)
qed

section \<open>Completion handling runs once\<close>

lemma completion_view_log [simp]: "completion_view (log e s) = completion_view s"
  by (simp add: completion_view_def)

lemma completion_view_set_question [simp]:
  "completion_view (dispatch_set_question q d s) = completion_view s"
  by (simp add: completion_view_def dispatch_set_question_def)

lemma completion_view_fetchQuestions [simp]:
  "completion_view (fetchQuestions url r s) = completion_view s"
proof -
  have "completion_view (s'\<lparr>currentQuestion := q\<rparr>) = completion_view s'" for s' q
    by (simp add: completion_view_def)
  then show ?thesis
    by (simp add: fetchQuestions_def Let_def split: response.splits sum.splits)
qed

lemma completion_view_fetchNextQuestion:
  assumes "highScoreShown s"
  shows "completion_view (fst (fetchNextQuestion url r s)) = completion_view s"
proof -
  have g: "highScoreShown (log e (log e' s))" for e e'
    using assms by simp
  have g': "highScoreShown (log e ((log e' s)\<lparr>currentQuestion := q\<rparr>))" for e e' q
    using assms by simp
  have c: "completion_view (s'\<lparr>currentQuestion := q\<rparr>) = completion_view s'" for s' q
    by (simp add: completion_view_def)
  show ?thesis
    by (simp add: fetchNextQuestion_def Let_def showHighScore_guarded [OF g]
        showHighScore_guarded [OF g'] c split: response.splits sum.splits)
qed

lemma completion_view_submitAnswer:
  assumes "highScoreShown s"
  shows "completion_view (submitAnswer a r rnext s) = completion_view s"
proof (cases "get_prop (currentQuestion s) ''nextURL''")
  case (Inl e)
  then show ?thesis by (simp add: submitAnswer_def)
next
  case (Inr url)
  let ?s0 = "log (POST url a) s"
  have g0: "highScoreShown ?s0" using assms by simp
  have g1: "highScoreShown (?s0\<lparr>countdownTimer := t\<rparr>)" for t
    using assms by simp
  have c1: "completion_view (?s0\<lparr>countdownTimer := t\<rparr>) = completion_view s" for t
    by (simp add: completion_view_def)
  have n: "completion_view (fst (fetchNextQuestion u rnext ?s0)) = completion_view s" for u
    using completion_view_fetchNextQuestion [OF g0] by simp
  have n': "completion_view (case fetchNextQuestion u rnext ?s0 of
      (s1, None) \<Rightarrow> s1 | (s1, Some e) \<Rightarrow> log ConsoleError s1) = completion_view s" for u
    using n [of u] by (cases "fetchNextQuestion u rnext ?s0") (auto split: option.splits)
  show ?thesis
    by (simp add: submitAnswer_def Inr Let_def showHighScore_guarded [OF g1] c1 n'
        split: response.splits)
qed

lemma showHighScore_uncaught_guarded:
  "highScoreShown s \<Longrightarrow> showHighScore_uncaught t s = s"
  by (simp add: showHighScore_uncaught_def showHighScore_guarded)

lemma completion_view_deliver_answers:
  "highScoreShown s \<Longrightarrow> completion_view (deliver_answers es r rnext s) = completion_view s"
proof (induction es arbitrary: s)
  case Nil
  then show ?case by simp
next
  case (Cons e es)
  obtain a where e: "e = AnswerSelected a" by (cases e)
  have c: "completion_view (submitAnswer a r rnext s) = completion_view s"
    by (rule completion_view_submitAnswer [OF Cons.prems])
  then have "highScoreShown (submitAnswer a r rnext s)"
    using Cons.prems by (simp add: completion_view_def)
  from Cons.IH [OF this] c show ?case by (simp add: e)
qed

lemma completion_view_from_display:
  assumes "highScoreShown s"
  shows "completion_view (from_display res r rnext s) = completion_view s"
proof (cases res)
  case (Inl e)
  then show ?thesis by (simp add: from_display_def)
next
  case (Inr p)
  obtain q es where p: "p = (q, es)" by (cases p)
  have "highScoreShown (s\<lparr>quizQuestion := q\<rparr>)" using assms by simp
  from completion_view_deliver_answers [OF this] show ?thesis
    by (simp add: from_display_def Inr p completion_view_def)
qed

lemma completion_view_deliver_timer_events:
  "highScoreShown s \<Longrightarrow> completion_view (deliver_timer_events es s) = completion_view s"
proof (induction es arbitrary: s)
  case Nil
  then show ?case by simp
next
  case (Cons e es)
  obtain k where e: "e = TotalTimeSpent k" by (cases e)
  have o: "on_total_time_spent k s = s\<lparr>totalTime := JNum (Fin k)\<rparr>"
    using Cons.prems by (simp add: on_total_time_spent_def Let_def showHighScore_uncaught_guarded)
  have "highScoreShown (s\<lparr>totalTime := JNum (Fin k)\<rparr>)" using Cons.prems by simp
  from Cons.IH [OF this] show ?case by (simp add: e o completion_view_def)
qed

lemma completion_view_step:
  assumes "highScoreShown s" and "e \<noteq> Click_try_again"
  shows "completion_view (step e s) = completion_view s"
proof (cases e)
  case (Submit_nickname r)
  have "completion_view (on_nickname n r s) = completion_view s" for n
    by (simp add: on_nickname_def) (simp add: completion_view_def)
  then show ?thesis
    by (simp add: Submit_nickname submit_nickname_def Let_def)
next
  case Tick
  obtain t es where t: "tick (countdownTimer s) = (t, es)"
    by (cases "tick (countdownTimer s)")
  have "highScoreShown (s\<lparr>countdownTimer := t\<rparr>)" using assms by simp
  from completion_view_deliver_timer_events [OF this] show ?thesis
    by (simp add: Tick app_tick_def t completion_view_def)
next
  case Click_try_again
  with assms show ?thesis by simp
qed (use assms in \<open>simp_all add: completion_view_from_display on_timeout_def
      on_quiz_completed_def showHighScore_uncaught_guarded\<close>,
    simp_all add: completion_view_def)

lemma completion_view_steps:
  "highScoreShown s \<Longrightarrow> Click_try_again \<notin> set es \<Longrightarrow>
   completion_view (fold step es s) = completion_view s"
proof (induction es arbitrary: s)
  case Nil
  then show ?case by simp
next
  case (Cons e es)
  from Cons.prems have c: "completion_view (step e s) = completion_view s"
    by (intro completion_view_step) auto
  with Cons.prems have "highScoreShown (step e s)"
    by (simp add: completion_view_def)
  from Cons.IH [OF this] Cons.prems c show ?case by simp
qed

lemma showHighScore_sets_guard: "highScoreShown (fst (showHighScore t s))"
  by (cases "highScoreShown s") (simp_all add: showHighScore_guarded showHighScore_sets)

text \<open>
  C5. \<open>showHighScore\<close> leaves the guard set, whether it returns or throws. Once the
  guard is set, \<open>showHighScore\<close> returns at once and changes nothing, so each completion
  trigger is dropped: 'timeout' and 'quiz-completed' change nothing, 'total-time-spent'
  only records the total, and an answer whose response has no usable \<open>nextURL\<close> only
  posts and stops the timer. Whatever happens then, in whatever order, as long as it is
  not the restart: the guard stays set, the board stays as it is, shown or hidden, and
  the stored history is not written. \<open>restartQuiz\<close> clears the guard.
\<close>

theorem completion_runs_once:
  assumes "highScoreShown s"
  shows
    "showHighScore t s = (s, None) \<and>
     on_timeout s = s \<and>
     on_quiz_completed t s = s \<and>
     on_total_time_spent k s = s\<lparr>totalTime := JNum (Fin k)\<rparr> \<and>
     (get_prop (currentQuestion s) ''nextURL'' = Inr url \<and>
      \<not> (truthy data \<and> truthy (dot data ''nextURL'')) \<longrightarrow>
        submitAnswer a (Body data) rnext s =
          s\<lparr>countdownTimer := stopTimer (countdownTimer s),
            trace := trace s @ [POST url a]\<rparr>) \<and>
     (Click_try_again \<notin> set es \<longrightarrow>
        highScoreShown (fold step es s) \<and>
        highScore_hidden (fold step es s) = highScore_hidden s \<and>
        ls_highScores (localStorage (fold step es s)) = ls_highScores (localStorage s) \<and>
        highScore (fold step es s) = highScore s) \<and>
     \<not> highScoreShown (restartQuiz s) \<and>
     highScoreShown (fst (showHighScore t s0))"
proof (intro conjI impI)
  show "showHighScore t s = (s, None)"
    by (rule showHighScore_guarded [OF assms])
  show "on_timeout s = s"
    by (simp add: on_timeout_def showHighScore_uncaught_guarded [OF assms])
  show "on_quiz_completed t s = s"
    by (simp add: on_quiz_completed_def showHighScore_uncaught_guarded [OF assms])
  show "on_total_time_spent k s = s\<lparr>totalTime := JNum (Fin k)\<rparr>"
    using assms by (simp add: on_total_time_spent_def Let_def showHighScore_uncaught_guarded)
  show "\<not> highScoreShown (restartQuiz s)"
    by (simp add: restartQuiz_def Let_def)
  show "highScoreShown (fst (showHighScore t s0))"
    by (rule showHighScore_sets_guard)
next
  assume a: "get_prop (currentQuestion s) ''nextURL'' = Inr url \<and>
      \<not> (truthy data \<and> truthy (dot data ''nextURL''))"
  have g: "highScoreShown ((log (POST url a) s)\<lparr>countdownTimer := c\<rparr>)" for c
    using assms by simp
  from a have "submitAnswer a (Body data) rnext s =
      (log (POST url a) s)\<lparr>countdownTimer := stopTimer (countdownTimer s)\<rparr>"
    by (auto simp: submitAnswer_def Let_def showHighScore_guarded [OF g])
  then show "submitAnswer a (Body data) rnext s =
      s\<lparr>countdownTimer := stopTimer (countdownTimer s), trace := trace s @ [POST url a]\<rparr>"
    by (simp add: log_def)
next
  assume "Click_try_again \<notin> set es"
  from completion_view_steps [OF assms this] assms
  show "highScoreShown (fold step es s)"
    and "highScore_hidden (fold step es s) = highScore_hidden s"
    and "ls_highScores (localStorage (fold step es s)) = ls_highScores (localStorage s)"
    and "highScore (fold step es s) = highScore s"
    by (simp_all add: completion_view_def)
qed


lemma ada_done_fields:
  "highScoreShown ada_done"
  "\<not> highScore_hidden ada_done"
  "ls_highScores (localStorage ada_done) =
     JSONText (JArr [JObj [(''nickname'', JStr ''Ada''), (''score'', JNum (Fin 3))]])"
  "currentQuestion ada_done = two_plus_two"
  by code_simp+

theorem completion_runs_once_witness:
  "highScoreShown ada_done \<and>
   get_prop (currentQuestion ada_done) ''nextURL'' = Inr (JStr ''/q/2'') \<and>
   \<not> (truthy JNull \<and> truthy (dot JNull ''nextURL'')) \<and>
   Click_try_again \<notin> set [Tick, Timeout, Quiz_completed (JNum (Fin 9)), Submit_nickname (Body two_plus_two)] \<and>
   on_total_time_spent 10 ada_done = ada_done\<lparr>totalTime := JNum (Fin 10)\<rparr> \<and>
   submitAnswer (JStr ''b'') (Body JNull) NetworkFailure ada_done =
     ada_done\<lparr>countdownTimer := stopTimer (countdownTimer ada_done),
       trace := trace ada_done @ [POST (JStr ''/q/2'') (JStr ''b'')]\<rparr> \<and>
   ls_highScores (localStorage
     (fold step [Tick, Timeout, Quiz_completed (JNum (Fin 9)), Submit_nickname (Body two_plus_two)]
        ada_done)) =
     JSONText (JArr [JObj [(''nickname'', JStr ''Ada''), (''score'', JNum (Fin 3))]])"
proof -
  let ?es = "[Tick, Timeout, Quiz_completed (JNum (Fin 9)), Submit_nickname (Body two_plus_two)]"
  have g: "highScoreShown ada_done"
    by (rule ada_done_fields(1))
  have u: "get_prop (currentQuestion ada_done) ''nextURL'' = Inr (JStr ''/q/2'')"
    unfolding ada_done_fields(4) by (simp add: two_plus_two_def)
  have d: "\<not> (truthy JNull \<and> truthy (dot JNull ''nextURL''))"
    by simp
  have e: "Click_try_again \<notin> set ?es"
    by simp
  note c = completion_runs_once [OF g, where url = "JStr ''/q/2''" and data = JNull
      and a = "JStr ''b''" and rnext = NetworkFailure and es = ?es and k = 10]
  from c have 0: "on_total_time_spent 10 ada_done = ada_done\<lparr>totalTime := JNum (Fin 10)\<rparr>"
    by blast
  from c u d have 1: "submitAnswer (JStr ''b'') (Body JNull) NetworkFailure ada_done =
      ada_done\<lparr>countdownTimer := stopTimer (countdownTimer ada_done),
        trace := trace ada_done @ [POST (JStr ''/q/2'') (JStr ''b'')]\<rparr>"
    by blast
  from c e have "ls_highScores (localStorage (fold step ?es ada_done)) =
      ls_highScores (localStorage ada_done)"
    by blast
  then have 2: "ls_highScores (localStorage (fold step ?es ada_done)) =
      JSONText (JArr [JObj [(''nickname'', JStr ''Ada''), (''score'', JNum (Fin 3))]])"
    unfolding ada_done_fields(3) .
  from g u d e 0 1 2 show ?thesis
    by (intro conjI)
qed

section \<open>Recording a score\<close>















lemma find_entry_absent:
  "findIndex_is_minus1 nick sc xs = Inr True \<Longrightarrow> find_entry nick sc xs = Inr JUndefined"
  by (induction xs) (auto split: sum.splits if_splits)


lemma showHighScore_storage_kept:
  assumes "localStorage (fst (showHighScore sc s)) \<noteq> localStorage s"
  shows "\<exists>n H. \<not> highScoreShown s \<and> nickname s = JStr n \<and> trim n \<noteq> [] \<and>
           load_highScores (localStorage s) = Inr (JArr H) \<and>
           findIndex_is_minus1 (JStr n) sc H = Inr True"
  using assms
  by (auto simp: showHighScore_def dispatch_stop_timer_def Let_def
      split: if_splits sum.splits jsval.splits)

lemma showHighScore_appends:
  assumes "\<not> highScoreShown s" and "nickname s = JStr n" and "trim n \<noteq> []"
    and "load_highScores (localStorage s) = Inr (JArr H)"
    and "listening (highScore s)" and "scores (highScore s) = JArr H"
    and "findIndex_is_minus1 (JStr n) sc H = Inr True"
  shows "localStorage (fst (showHighScore sc s)) =
           (localStorage s)\<lparr>ls_highScores :=
              JSONText (JArr (map json_value H @ [json_value (new_entry (JStr n) sc)]))\<rparr>"
    and "highScore (fst (showHighScore sc s)) =
           (highScore s)\<lparr>scores := JArr (map json_value H @ [json_value (new_entry (JStr n) sc)]),
              score_list := scoreList (map json_value H @ [json_value (new_entry (JStr n) sc)])\<rparr>"
    and "nickname (fst (showHighScore sc s)) = JStr n"
  using assms
  by (simp_all add: showHighScore_def dispatch_stop_timer_def dispatch_high_score_def
      on_high_score_def find_entry_absent JSON_stringify_item_def render_board_def
      load_highScores_def Let_def)


lemma board_in_step_cong:
  assumes "ls_highScores (localStorage s') = ls_highScores (localStorage s)"
    and "highScore s' = highScore s"
  shows "board_in_step s' = board_in_step s"
proof -
  have eq: "load_highScores (localStorage s') = load_highScores (localStorage s)"
    using assms(1) by (simp add: load_highScores_def)
  show ?thesis
    unfolding board_in_step_def eq assms(2) by (rule refl)
qed

lemma board_in_step_iff:
  "board_in_step s \<longleftrightarrow>
   (\<exists>H. listening (highScore s) \<and> scores (highScore s) = JArr H \<and>
        load_highScores (localStorage s) = Inr (JArr H))"
  by (auto simp: board_in_step_def split: jsval.splits)

lemma board_in_step_new:
  assumes "new_QuizApplication ls = Inr s"
    and "ls_highScores ls = NoItem \<or> (\<exists>H. ls_highScores ls = JSONText (JArr H))"
  shows "board_in_step s"
proof -
  from assms(2) obtain H where l: "load_highScores ls = Inr (JArr H)"
    by (auto simp: load_highScores_def)
  then have b: "board_connectedCallback ls =
      (\<lparr>scores = JArr H, score_list = scoreList H, listening = True\<rparr>, None)"
    by (simp add: board_connectedCallback_def render_board_def new_HighScoreBoard_def)
  from assms(1) have "highScore s = \<lparr>scores = JArr H, score_list = scoreList H, listening = True\<rparr>"
    and "localStorage s = ls"
    by (auto simp: new_QuizApplication_def l b)
  then show ?thesis
    by (simp add: board_in_step_def l)
qed

lemma showHighScore_board_kept:
  assumes "highScore (fst (showHighScore sc s)) \<noteq> highScore s"
  shows "\<exists>n H. \<not> highScoreShown s \<and> nickname s = JStr n \<and> trim n \<noteq> [] \<and>
           load_highScores (localStorage s) = Inr (JArr H) \<and>
           findIndex_is_minus1 (JStr n) sc H = Inr True"
  using assms
  by (auto simp: showHighScore_def dispatch_stop_timer_def Let_def
      split: if_splits sum.splits jsval.splits)

lemma board_in_step_showHighScore:
  assumes "board_in_step s"
  shows "board_in_step (fst (showHighScore sc s))"
proof (cases "localStorage (fst (showHighScore sc s)) = localStorage s \<and>
    highScore (fst (showHighScore sc s)) = highScore s")
  case True
  then show ?thesis
    using assms board_in_step_cong [of "fst (showHighScore sc s)" s] by simp
next
  case False
  then obtain n H where g: "\<not> highScoreShown s" and n: "nickname s = JStr n" "trim n \<noteq> []"
    and l: "load_highScores (localStorage s) = Inr (JArr H)"
    and f: "findIndex_is_minus1 (JStr n) sc H = Inr True"
    using showHighScore_storage_kept [of sc s] showHighScore_board_kept [of sc s] by blast
  from assms l have b: "listening (highScore s)" "scores (highScore s) = JArr H"
    by (auto simp: board_in_step_iff)
  note a = showHighScore_appends [OF g n l b f]
  show ?thesis
    by (simp add: board_in_step_def a b)
qed

lemma board_in_step_frame [simp]:
  "board_in_step (log e s) = board_in_step s"
  "board_in_step (dispatch_set_question q d s) = board_in_step s"
  "board_in_step (s\<lparr>currentQuestion := c\<rparr>) = board_in_step s"
  "board_in_step (s\<lparr>countdownTimer := t\<rparr>) = board_in_step s"
  "board_in_step (s\<lparr>quizQuestion := qq\<rparr>) = board_in_step s"
  "board_in_step (s\<lparr>totalTime := tt\<rparr>) = board_in_step s"
  "board_in_step (s\<lparr>nickname_input := i\<rparr>) = board_in_step s"
  by (rule board_in_step_cong; simp add: log_def dispatch_set_question_def)+

lemma board_in_step_fetchQuestions [simp]:
  "board_in_step (fetchQuestions url r s) = board_in_step s"
  by (simp add: fetchQuestions_def Let_def split: response.splits sum.splits)

lemma board_in_step_fetchNextQuestion:
  "board_in_step s \<Longrightarrow> board_in_step (fst (fetchNextQuestion url r s))"
  by (simp add: fetchNextQuestion_def Let_def board_in_step_showHighScore
      split: response.splits sum.splits)

lemma board_in_step_case_log:
  "board_in_step (fst p) \<Longrightarrow>
   board_in_step (case p of (s1, None) \<Rightarrow> s1 | (s1, Some e) \<Rightarrow> log e' s1)"
  by (cases p) (auto split: option.splits)

lemma board_in_step_submitAnswer:
  "board_in_step s \<Longrightarrow> board_in_step (submitAnswer a r rnext s)"
  by (simp add: submitAnswer_def Let_def board_in_step_case_log board_in_step_fetchNextQuestion
      board_in_step_showHighScore split: sum.splits response.splits)

lemma board_in_step_uncaught:
  "board_in_step s \<Longrightarrow> board_in_step (showHighScore_uncaught sc s)"
  unfolding showHighScore_uncaught_def
  using board_in_step_showHighScore [of s sc]
  by (cases "showHighScore sc s") (auto split: option.splits)

lemma board_in_step_deliver_answers:
  "board_in_step s \<Longrightarrow> board_in_step (deliver_answers es r rnext s)"
proof (induction es arbitrary: s)
  case Nil
  then show ?case by simp
next
  case (Cons e es)
  obtain a where "e = AnswerSelected a" by (cases e)
  with Cons show ?case by (simp add: board_in_step_submitAnswer)
qed

lemma board_in_step_deliver_timer_events:
  "board_in_step s \<Longrightarrow> board_in_step (deliver_timer_events es s)"
proof (induction es arbitrary: s)
  case Nil
  then show ?case by simp
next
  case (Cons e es)
  obtain k where "e = TotalTimeSpent k" by (cases e)
  with Cons show ?case
    by (simp add: on_total_time_spent_def Let_def board_in_step_uncaught)
qed

lemma board_in_step_restartQuiz [simp]: "board_in_step (restartQuiz s) = board_in_step s"
  by (rule board_in_step_cong) (simp_all add: restartQuiz_def dispatch_stop_timer_def Let_def log_def)

lemma board_in_step_on_nickname [simp]: "board_in_step (on_nickname n r s) = board_in_step s"
proof -
  have "board_in_step (s\<lparr>nicknameForm_hidden := True, quizQuestion_hidden := False,
          countdownTimer_hidden := False, nickname := JStr n,
          localStorage := (localStorage s)\<lparr>ls_nickname := Some n\<rparr>,
          score := 0\<rparr>) = board_in_step s"
    by (rule board_in_step_cong) simp_all
  then show ?thesis by (simp add: on_nickname_def)
qed

lemma board_in_step_step: "board_in_step s \<Longrightarrow> board_in_step (step e s)"
proof (cases e)
  case Tick
  assume "board_in_step s"
  then show ?thesis
    by (simp add: Tick app_tick_def board_in_step_deliver_timer_events split: prod.splits)
next
  case (Click_submit r rnext)
  assume "board_in_step s"
  then show ?thesis
    by (auto simp: Click_submit from_display_def board_in_step_deliver_answers
        split: sum.splits prod.splits)
next
  case (Keydown key r rnext)
  assume "board_in_step s"
  then show ?thesis
    by (auto simp: Keydown from_display_def board_in_step_deliver_answers
        split: sum.splits prod.splits)
qed (simp_all add: submit_nickname_def Let_def on_timeout_def on_quiz_completed_def
    board_in_step_uncaught on_try_again_def)

lemma board_in_step_steps: "board_in_step s \<Longrightarrow> board_in_step (fold step es s)"
  by (induction es arbitrary: s) (simp_all add: board_in_step_step)




section \<open>Rendering the top five\<close>

lemma num_after_iff:
  "x \<noteq> NaN \<Longrightarrow> y \<noteq> NaN \<Longrightarrow> num_gt0 (num_sub x y) \<longleftrightarrow> \<not> num_le x y"
  by (cases x; cases y) auto

lemma num_le_total: "x \<noteq> NaN \<Longrightarrow> y \<noteq> NaN \<Longrightarrow> num_le x y \<or> num_le y x"
  by (cases x; cases y) auto

lemma num_le_trans: "num_le x y \<Longrightarrow> num_le y z \<Longrightarrow> num_le x z"
  by (cases x; cases y; cases z) simp_all

lemma keeps_entry_score:
  "keeps_entry e \<Longrightarrow> \<exists>x. dot e ''score'' = JNum x \<and> x \<noteq> NaN"
  by (cases "dot e ''score''" rule: isNaN.cases) (auto simp: keeps_entry_def)

lemma score_after_iff:
  "keeps_entry a \<Longrightarrow> keeps_entry b \<Longrightarrow> score_after a b \<longleftrightarrow> \<not> score_le a b"
  using keeps_entry_score [of a] keeps_entry_score [of b]
  by (auto simp: score_after_def score_le_def num_after_iff)

lemma set_insert_by_score [simp]: "set (insert_by_score x ys) = insert x (set ys)"
  by (induction ys) auto

lemma mset_insert_by_score [simp]: "mset (insert_by_score x ys) = add_mset x (mset ys)"
  by (induction ys) auto

lemma mset_sort_by_score [simp]: "mset (sort_by_score xs) = mset xs"
  by (induction xs) auto

lemma set_sort_by_score [simp]: "set (sort_by_score xs) = set xs"
  using mset_sort_by_score [of xs] by (metis set_mset_mset)

lemma score_le_total: "keeps_entry a \<Longrightarrow> keeps_entry b \<Longrightarrow> score_le a b \<or> score_le b a"
proof -
  assume "keeps_entry a" "keeps_entry b"
  then obtain x y where "dot a ''score'' = JNum x" "x \<noteq> NaN" "dot b ''score'' = JNum y" "y \<noteq> NaN"
    using keeps_entry_score by blast
  then show ?thesis
    using num_le_total [of x y] by (simp add: score_le_def)
qed

lemma score_le_trans: "score_le a b \<Longrightarrow> score_le b c \<Longrightarrow> score_le a c"
  unfolding score_le_def by (rule num_le_trans)

lemma sorted_insert_by_score:
  assumes "keeps_entry x" and "\<forall>y\<in>set ys. keeps_entry y" and "sorted_wrt score_le ys"
  shows "sorted_wrt score_le (insert_by_score x ys)"
  using assms
proof (induction ys)
  case Nil
  then show ?case by simp
next
  case (Cons y ys)
  from Cons.prems have ky: "keeps_entry y" and kys: "\<forall>z\<in>set ys. keeps_entry z"
    and yys: "\<forall>z\<in>set ys. score_le y z" and sys: "sorted_wrt score_le ys"
    by simp_all
  show ?case
  proof (cases "score_after x y")
    case True
    then have "\<not> score_le x y"
      using Cons.prems(1) ky by (simp add: score_after_iff)
    then have yx: "score_le y x"
      using score_le_total [OF Cons.prems(1) ky] by blast
    have "sorted_wrt score_le (insert_by_score x ys)"
      by (rule Cons.IH [OF Cons.prems(1) kys sys])
    with True yx yys show ?thesis by simp
  next
    case False
    then have xy: "score_le x y"
      using Cons.prems(1) ky by (simp add: score_after_iff)
    have "score_le x z" if "z \<in> set ys" for z
      using xy yys that score_le_trans by blast
    with False xy yys sys show ?thesis by simp
  qed
qed

lemma sorted_sort_by_score:
  "\<forall>x\<in>set xs. keeps_entry x \<Longrightarrow> sorted_wrt score_le (sort_by_score xs)"
  by (induction xs) (simp_all add: sorted_insert_by_score)

lemma sorted_topFiveScores: "sorted_wrt score_le (topFiveScores xs)"
  unfolding topFiveScores_def
  by (intro sorted_wrt_take sorted_sort_by_score) simp

lemma length_topFiveScores: "length (topFiveScores xs) \<le> 5"
  by (simp add: topFiveScores_def)

lemma topFiveScores_kept:
  assumes "e \<in> set (topFiveScores xs)"
  shows "e \<in> set xs \<and> keeps_entry e"
proof -
  from assms have "e \<in> set (sort_by_score (filter keeps_entry xs))"
    unfolding topFiveScores_def by (rule in_set_takeD)
  then show ?thesis by simp
qed

lemma scoreList_columns:
  "map fst (scoreList xs) = [1..<Suc (length (topFiveScores xs))]"
  "map (\<lambda>r. snd (snd r)) (scoreList xs) = map (\<lambda>e. dot e ''score'') (topFiveScores xs)"
proof -
  let ?T = "topFiveScores xs"
  have "map fst (scoreList xs) = map (\<lambda>p. Suc (fst p)) (enumerate 0 ?T)"
    unfolding scoreList_def by (simp add: case_prod_unfold)
  also have "\<dots> = map Suc (map fst (enumerate 0 ?T))"
    by (simp only: map_map comp_def)
  also have "\<dots> = [1..<Suc (length ?T)]"
    by (simp add: map_Suc_upt)
  finally show "map fst (scoreList xs) = [1..<Suc (length ?T)]" .
  have "map (\<lambda>r. snd (snd r)) (scoreList xs) = map (\<lambda>p. dot (snd p) ''score'') (enumerate 0 ?T)"
    unfolding scoreList_def by (simp add: case_prod_unfold)
  also have "\<dots> = map (\<lambda>e. dot e ''score'') (map snd (enumerate 0 ?T))"
    by (simp only: map_map comp_def)
  also have "\<dots> = map (\<lambda>e. dot e ''score'') ?T"
    by simp
  finally show "map (\<lambda>r. snd (snd r)) (scoreList xs) = map (\<lambda>e. dot e ''score'') ?T" .
qed

lemma length_scoreList: "length (scoreList xs) = length (topFiveScores xs)"
  by (simp add: scoreList_def)

lemma render_board_array:
  "render_board (ls\<lparr>ls_highScores := JSONText (JArr xs)\<rparr>) b =
     (b\<lparr>scores := JArr xs, score_list := scoreList xs\<rparr>, None)"
  by (simp add: render_board_def)

text \<open>
  C7, as amended. For every stored history, \<open>render\<close> lists the first five entries of
  the history filtered and then sorted: at most five rows, ranked from 1, in ascending
  order of score. The filter keeps exactly the truthy entries whose score is a number
  other than \<open>NaN\<close>, so an entry whose score is not a number, or is \<open>NaN\<close>, is excluded
  before sorting and truncation, and every row shows such a number; an infinite score
  passes the filter. The sort rearranges the filtered entries and drops none.
\<close>

theorem rendered_top_five:
  "render_board (ls\<lparr>ls_highScores := JSONText (JArr xs)\<rparr>) b =
     (b\<lparr>scores := JArr xs, score_list := scoreList xs\<rparr>, None) \<and>
   length (scoreList xs) \<le> 5 \<and>
   map fst (scoreList xs) = [1..<Suc (length (scoreList xs))] \<and>
   sorted_wrt num_le (map (\<lambda>r. to_number (snd (snd r))) (scoreList xs)) \<and>
   (\<forall>r\<in>set (scoreList xs). \<exists>x. snd (snd r) = JNum x \<and> x \<noteq> NaN) \<and>
   topFiveScores xs = take 5 (sort_by_score (filter keeps_entry xs)) \<and>
   mset (sort_by_score (filter keeps_entry xs)) = mset (filter keeps_entry xs) \<and>
   sorted_wrt score_le (sort_by_score (filter keeps_entry xs)) \<and>
   (\<forall>e. keeps_entry e \<longleftrightarrow> truthy e \<and> (\<exists>x. dot e ''score'' = JNum x \<and> x \<noteq> NaN))"
proof (intro conjI)
  show "render_board (ls\<lparr>ls_highScores := JSONText (JArr xs)\<rparr>) b =
      (b\<lparr>scores := JArr xs, score_list := scoreList xs\<rparr>, None)"
    by (rule render_board_array)
  show "length (scoreList xs) \<le> 5"
    by (simp add: length_scoreList length_topFiveScores)
  show "map fst (scoreList xs) = [1..<Suc (length (scoreList xs))]"
    by (simp only: scoreList_columns length_scoreList)
  have "map (\<lambda>r. to_number (snd (snd r))) (scoreList xs) =
      map to_number (map (\<lambda>r. snd (snd r)) (scoreList xs))"
    by (simp only: map_map comp_def)
  also have "\<dots> = map (\<lambda>e. to_number (dot e ''score'')) (topFiveScores xs)"
    by (simp only: scoreList_columns map_map comp_def)
  finally show "sorted_wrt num_le (map (\<lambda>r. to_number (snd (snd r))) (scoreList xs))"
    using sorted_topFiveScores [of xs, unfolded score_le_def] by (simp add: sorted_wrt_map)
  show "\<forall>r\<in>set (scoreList xs). \<exists>x. snd (snd r) = JNum x \<and> x \<noteq> NaN"
  proof
    fix r assume "r \<in> set (scoreList xs)"
    then have "snd (snd r) \<in> set (map (\<lambda>r. snd (snd r)) (scoreList xs))"
      by simp
    then obtain e where "e \<in> set (topFiveScores xs)" "snd (snd r) = dot e ''score''"
      unfolding scoreList_columns by auto
    then show "\<exists>x. snd (snd r) = JNum x \<and> x \<noteq> NaN"
      using topFiveScores_kept [of e xs] keeps_entry_score [of e] by simp
  qed
  show "topFiveScores xs = take 5 (sort_by_score (filter keeps_entry xs))"
    by (rule topFiveScores_def)
  show "mset (sort_by_score (filter keeps_entry xs)) = mset (filter keeps_entry xs)"
    by (rule mset_sort_by_score)
  show "sorted_wrt score_le (sort_by_score (filter keeps_entry xs))"
    by (rule sorted_sort_by_score) simp
  show "\<forall>e. keeps_entry e \<longleftrightarrow> truthy e \<and> (\<exists>x. dot e ''score'' = JNum x \<and> x \<noteq> NaN)"
  proof
    fix e
    show "keeps_entry e \<longleftrightarrow> truthy e \<and> (\<exists>x. dot e ''score'' = JNum x \<and> x \<noteq> NaN)"
      by (cases "dot e ''score''" rule: isNaN.cases) (auto simp: keeps_entry_def)
  qed
qed

lemma scoreList_stored_history:
  "scoreList stored_history =
     [(1, JStr ''Gus'', JNum (Fin 1)), (2, JStr ''Ada'', JNum (Fin 3)),
      (3, JStr ''Eli'', JNum (Fin 3)), (4, JStr ''Bob'', JNum (Fin 5)),
      (5, JStr ''Cy'', JNum (Fin 9))]"
  by code_simp

theorem rendered_top_five_witness:
  "score_list (fst (render_board (empty_storage\<lparr>ls_highScores := JSONText (JArr stored_history)\<rparr>)
      new_HighScoreBoard)) =
     [(1, JStr ''Gus'', JNum (Fin 1)), (2, JStr ''Ada'', JNum (Fin 3)),
      (3, JStr ''Eli'', JNum (Fin 3)), (4, JStr ''Bob'', JNum (Fin 5)),
      (5, JStr ''Cy'', JNum (Fin 9))] \<and>
   length (scoreList stored_history) \<le> 5 \<and>
   sorted_wrt num_le (map (\<lambda>r. to_number (snd (snd r))) (scoreList stored_history)) \<and>
   (5, JStr ''Cy'', JNum (Fin 9)) \<in> set (scoreList stored_history) \<and>
   (\<exists>x. snd (snd (5::nat, JStr ''Cy'', JNum (Fin 9))) = JNum x \<and> x \<noteq> NaN)"
proof -
  note t = rendered_top_five [where ls = empty_storage and xs = stored_history
    and b = new_HighScoreBoard]
  from t have 1: "score_list (fst (render_board
      (empty_storage\<lparr>ls_highScores := JSONText (JArr stored_history)\<rparr>) new_HighScoreBoard)) =
      scoreList stored_history"
    by simp
  from t have 2: "length (scoreList stored_history) \<le> 5"
    and 3: "sorted_wrt num_le (map (\<lambda>r. to_number (snd (snd r))) (scoreList stored_history))"
    and 4: "\<forall>r\<in>set (scoreList stored_history). \<exists>x. snd (snd r) = JNum x \<and> x \<noteq> NaN"
    by blast+
  have 5: "(5, JStr ''Cy'', JNum (Fin 9)) \<in> set (scoreList stored_history)"
    by (simp add: scoreList_stored_history)
  from 4 5 have 6: "\<exists>x. snd (snd (5::nat, JStr ''Cy'', JNum (Fin 9))) = JNum x \<and> x \<noteq> NaN"
    by (rule bspec)
  from 1 2 3 5 6 show ?thesis
    unfolding scoreList_stored_history by (intro conjI)
qed

text \<open>
  C7, as stated, fails on an infinite score: the stored text
  \<open>[{"nickname":"Hal","score":1e999}]\<close> parses to a history whose one entry has the
  score \<open>Infinity\<close>, which is not a finite number, and \<open>render\<close> lists it.
\<close>

theorem infinite_score_counterexample:
  "keeps_entry (new_entry (JStr ''Hal'') (JNum PosInf)) \<and>
   render_board (empty_storage\<lparr>ls_highScores :=
       JSONText (JArr [new_entry (JStr ''Hal'') (JNum PosInf)])\<rparr>) new_HighScoreBoard =
     (\<lparr>scores = JArr [new_entry (JStr ''Hal'') (JNum PosInf)],
       score_list = [(1, JStr ''Hal'', JNum PosInf)], listening = False\<rparr>, None)"
  by code_simp

section \<open>Restarting\<close>

lemma resetAll_idem: "resetAll (resetAll t) = resetAll t"
  by (simp add: resetAll_def updateDisplay_def resetAccumulatedTime_def resetTotalTimeSpent_def
      stopTimer_def)

lemma countdownTimer_restartQuiz:
  "countdownTimer (restartQuiz s) = resetAll (stopTimer (countdownTimer s))"
  by (simp add: restartQuiz_def dispatch_stop_timer_def Let_def)

lemma on_try_again_restartQuiz: "on_try_again s = restartQuiz s"
proof -
  have "resetAll (countdownTimer (restartQuiz s)) = countdownTimer (restartQuiz s)"
    by (simp add: countdownTimer_restartQuiz resetAll_idem)
  then show ?thesis
    by (simp add: on_try_again_def Let_def)
qed

text \<open>
  C9, as amended. \<open>restartQuiz\<close> clears the nickname form's input and removes the stored
  nickname; it resets the score, the question index and the guard, stops the timer and
  clears its elapsed and accumulated seconds; it shows the nickname form and hides the
  question, the timer and the high-score board; it leaves the stored high-score history
  and the high-score component as they are, and its only effect outside is the
  'stop-timer' event. The nickname, the current question and the last total time that
  the application holds, and the question display, keep their values. The Try Again
  button does exactly this.
\<close>

theorem restart_effect:
  "(nickname_input (restartQuiz s) = [] \<and>
    ls_nickname (localStorage (restartQuiz s)) = None \<and>
    ls_quizScore (localStorage (restartQuiz s)) = None) \<and>
   (score (restartQuiz s) = 0 \<and>
    currentQuestionIndex (restartQuiz s) = JNum (Fin 0) \<and>
    \<not> highScoreShown (restartQuiz s) \<and>
    \<not> intervalId (countdownTimer (restartQuiz s)) \<and>
    totalTimeSpent (countdownTimer (restartQuiz s)) = 0 \<and>
    accumulatedTime (countdownTimer (restartQuiz s)) = 0) \<and>
   (\<not> nicknameForm_hidden (restartQuiz s) \<and>
    quizQuestion_hidden (restartQuiz s) \<and>
    countdownTimer_hidden (restartQuiz s) \<and>
    highScore_hidden (restartQuiz s)) \<and>
   (ls_highScores (localStorage (restartQuiz s)) = ls_highScores (localStorage s) \<and>
    highScore (restartQuiz s) = highScore s \<and>
    trace (restartQuiz s) = trace s @ [StopTimer]) \<and>
   (nickname (restartQuiz s) = nickname s \<and>
    currentQuestion (restartQuiz s) = currentQuestion s \<and>
    totalTime (restartQuiz s) = totalTime s \<and>
    quizQuestion (restartQuiz s) = quizQuestion s) \<and>
   on_try_again s = restartQuiz s"
proof -
  have timer: "\<not> intervalId (countdownTimer (restartQuiz s)) \<and>
      totalTimeSpent (countdownTimer (restartQuiz s)) = 0 \<and>
      accumulatedTime (countdownTimer (restartQuiz s)) = 0"
    by (simp add: countdownTimer_restartQuiz resetAll_fields)
  have rest: "nickname_input (restartQuiz s) = []"
    "ls_nickname (localStorage (restartQuiz s)) = None"
    "ls_quizScore (localStorage (restartQuiz s)) = None"
    "score (restartQuiz s) = 0"
    "currentQuestionIndex (restartQuiz s) = JNum (Fin 0)"
    "\<not> highScoreShown (restartQuiz s)"
    "\<not> nicknameForm_hidden (restartQuiz s)"
    "quizQuestion_hidden (restartQuiz s)"
    "countdownTimer_hidden (restartQuiz s)"
    "highScore_hidden (restartQuiz s)"
    "ls_highScores (localStorage (restartQuiz s)) = ls_highScores (localStorage s)"
    "highScore (restartQuiz s) = highScore s"
    "trace (restartQuiz s) = trace s @ [StopTimer]"
    "nickname (restartQuiz s) = nickname s"
    "currentQuestion (restartQuiz s) = currentQuestion s"
    "totalTime (restartQuiz s) = totalTime s"
    "quizQuestion (restartQuiz s) = quizQuestion s"
    by (simp_all add: restartQuiz_def dispatch_stop_timer_def log_def Let_def)
  from timer rest on_try_again_restartQuiz [of s] show ?thesis
    by simp
qed

text \<open>
  C9, as stated, fails in "clears the session state": after Ada's session is complete
  and she presses Try Again, the restart has run (the guard is clear, the form is shown),
  yet the application still holds her nickname, the question she answered and the
  address to post an answer to, and the question display still holds that question.
\<close>

theorem restart_keeps_session_counterexample:
  "highScoreShown ada_done \<and>
   \<not> highScoreShown (step Click_try_again ada_done) \<and>
   \<not> nicknameForm_hidden (step Click_try_again ada_done) \<and>
   nickname (step Click_try_again ada_done) = JStr ''Ada'' \<and>
   currentQuestion (step Click_try_again ada_done) = two_plus_two \<and>
   get_prop (currentQuestion (step Click_try_again ada_done)) ''nextURL'' = Inr (JStr ''/q/2'') \<and>
   qq_currentQuestion (quizQuestion (step Click_try_again ada_done)) = two_plus_two"
  by code_simp

section \<open>Submitting a free-text answer\<close>

lemma setQuestion_free_text:
  assumes "truthy question" and "\<not> truthy (dot question ''alternatives'')"
  shows "options_container (setQuestion question q) = Text_input"
    and "qq_currentQuestion (setQuestion question q) = question"
  using assms by (simp_all add: setQuestion_def Let_def)

lemma get_prop_truthy: "truthy v \<Longrightarrow> get_prop v k = Inr (dot v k)"
  by (cases v) (simp_all add: dot_def)

lemma handleAnswerClick_free_text:
  assumes "truthy (qq_currentQuestion q)"
    and "\<not> truthy (dot (qq_currentQuestion q) ''alternatives'')"
    and "options_container q = Text_input"
  shows "handleAnswerClick q =
           Inr (q\<lparr>currentSelectedAnswer := JStr (trim (answer_input q))\<rparr>,
                [AnswerSelected (JStr (trim (answer_input q)))])"
  using assms by (simp add: handleAnswerClick_def get_prop_truthy Let_def)

lemma handleAnswerClick_text_input:
  assumes "truthy (qq_currentQuestion q)" and "options_container q = Text_input"
  shows "\<exists>a. handleAnswerClick q =
           Inr (q\<lparr>currentSelectedAnswer := a\<rparr>, [AnswerSelected a]) \<and>
           (a = JStr (trim (answer_input q)) \<or> a = JNull)"
  using assms by (auto simp: handleAnswerClick_def get_prop_truthy Let_def)

text \<open>
  When the question set has no \<open>alternatives\<close> (none, or a falsy value), the display
  holds the text input, and a click on the submit button or the Enter key in the input
  emits exactly one 'answer-selected' carrying the trimmed text of the input, whatever
  the text is: for a text that trims to the empty string the event carries the empty
  string. A click on the submit button of the radio form with no radio button checked
  emits nothing. Whenever the display holds the text input, for whatever question, a
  click on the submit button emits exactly one 'answer-selected': the text input never
  rejects an answer.
\<close>

lemma free_text_answer_emitted:
  assumes "truthy question" and "\<not> truthy (dot question ''alternatives'')"
  shows
    "options_container (setQuestion question q) = Text_input \<and>
     click_submit (type_answer v (setQuestion question q)) =
       Inr ((type_answer v (setQuestion question q))\<lparr>currentSelectedAnswer := JStr (trim v)\<rparr>,
            [AnswerSelected (JStr (trim v))]) \<and>
     keydown ''Enter'' (type_answer v (setQuestion question q)) =
       Inr ((type_answer v (setQuestion question q))\<lparr>currentSelectedAnswer := JStr (trim v)\<rparr>,
            [AnswerSelected (JStr (trim v))]) \<and>
     (trim v = [] \<longrightarrow>
        click_submit (type_answer v (setQuestion question q)) =
          Inr ((type_answer v (setQuestion question q))\<lparr>currentSelectedAnswer := JStr []\<rparr>,
               [AnswerSelected (JStr [])])) \<and>
     (options_container q' = Radio_form ks \<and> checked_radio q' = None \<longrightarrow>
        click_submit q' = Inr (q', [])) \<and>
     (truthy (qq_currentQuestion q') \<and> options_container q' = Text_input \<longrightarrow>
        (\<exists>a. click_submit q' = Inr (q'\<lparr>currentSelectedAnswer := a\<rparr>, [AnswerSelected a])))"
proof -
  let ?q = "type_answer v (setQuestion question q)"
  note sq = setQuestion_free_text [OF assms, of q]
  have typed: "options_container ?q = Text_input" "qq_currentQuestion ?q = question"
    "answer_input ?q = v"
    by (simp_all add: type_answer_def sq)
  have "handleAnswerClick ?q =
      Inr (?q\<lparr>currentSelectedAnswer := JStr (trim (answer_input ?q))\<rparr>,
           [AnswerSelected (JStr (trim (answer_input ?q)))])"
    by (rule handleAnswerClick_free_text) (simp_all add: typed assms)
  then have h: "handleAnswerClick ?q =
      Inr (?q\<lparr>currentSelectedAnswer := JStr (trim v)\<rparr>, [AnswerSelected (JStr (trim v))])"
    by (simp only: typed)
  have click: "click_submit ?q = handleAnswerClick ?q"
    by (simp add: click_submit_def typed)
  have enter: "keydown ''Enter'' ?q = handleAnswerClick ?q"
    by (simp add: keydown_def typed)
  have empty: "click_submit ?q =
      Inr (?q\<lparr>currentSelectedAnswer := JStr []\<rparr>, [AnswerSelected (JStr [])])"
    if "trim v = []"
    using that by (simp only: click h)
  have radio: "click_submit q' = Inr (q', [])"
    if "options_container q' = Radio_form ks \<and> checked_radio q' = None"
    using that by (simp add: click_submit_def)
  show ?thesis
  proof (intro conjI impI)
    show "options_container (setQuestion question q) = Text_input"
      by (rule sq(1))
    show "click_submit ?q =
        Inr (?q\<lparr>currentSelectedAnswer := JStr (trim v)\<rparr>, [AnswerSelected (JStr (trim v))])"
      by (simp only: click h)
    show "keydown ''Enter'' ?q =
        Inr (?q\<lparr>currentSelectedAnswer := JStr (trim v)\<rparr>, [AnswerSelected (JStr (trim v))])"
      by (simp only: enter h)
  next
    assume "trim v = []"
    then show "click_submit ?q =
        Inr (?q\<lparr>currentSelectedAnswer := JStr []\<rparr>, [AnswerSelected (JStr [])])"
      by (rule empty)
  next
    assume "options_container q' = Radio_form ks \<and> checked_radio q' = None"
    then show "click_submit q' = Inr (q', [])"
      by (rule radio)
  next
    assume t: "truthy (qq_currentQuestion q') \<and> options_container q' = Text_input"
    then have "click_submit q' = handleAnswerClick q'"
      by (simp add: click_submit_def)
    with t handleAnswerClick_text_input [of q']
    show "\<exists>a. click_submit q' = Inr (q'\<lparr>currentSelectedAnswer := a\<rparr>, [AnswerSelected a])"
      by auto
  qed
qed

lemma free_text_answer_emitted_example:
  "truthy capital_question \<and>
   \<not> truthy (dot capital_question ''alternatives'') \<and>
   trim ''   '' = [] \<and>
   click_submit (type_answer ''   '' (setQuestion capital_question new_QuizQuestion)) =
     Inr ((type_answer ''   '' (setQuestion capital_question new_QuizQuestion))
            \<lparr>currentSelectedAnswer := JStr []\<rparr>,
          [AnswerSelected (JStr [])]) \<and>
   keydown ''Enter'' (type_answer '' Stockholm '' (setQuestion capital_question new_QuizQuestion)) =
     Inr ((type_answer '' Stockholm '' (setQuestion capital_question new_QuizQuestion))
            \<lparr>currentSelectedAnswer := JStr (trim '' Stockholm '')\<rparr>,
          [AnswerSelected (JStr (trim '' Stockholm ''))]) \<and>
   trim '' Stockholm '' = ''Stockholm'' \<and>
   options_container (setQuestion two_plus_two new_QuizQuestion) = Radio_form [''a'', ''b''] \<and>
   checked_radio (setQuestion two_plus_two new_QuizQuestion) = None \<and>
   click_submit (setQuestion two_plus_two new_QuizQuestion) =
     Inr (setQuestion two_plus_two new_QuizQuestion, [])"
proof -
  have a: "truthy capital_question" "\<not> truthy (dot capital_question ''alternatives'')"
    by code_simp+
  have b: "trim ''   '' = []" "trim '' Stockholm '' = ''Stockholm''"
    by code_simp+
  have c: "options_container (setQuestion two_plus_two new_QuizQuestion) = Radio_form [''a'', ''b'']"
    "checked_radio (setQuestion two_plus_two new_QuizQuestion) = None"
    by code_simp+
  note blank = free_text_answer_emitted [OF a, of new_QuizQuestion "''   ''"
      "setQuestion two_plus_two new_QuizQuestion" "[''a'', ''b'']"]
  note typed = free_text_answer_emitted [OF a, of new_QuizQuestion "'' Stockholm ''"
      "setQuestion two_plus_two new_QuizQuestion" "[''a'', ''b'']"]
  from blank b(1) have 1: "click_submit (type_answer ''   '' (setQuestion capital_question new_QuizQuestion)) =
     Inr ((type_answer ''   '' (setQuestion capital_question new_QuizQuestion))
            \<lparr>currentSelectedAnswer := JStr []\<rparr>,
          [AnswerSelected (JStr [])])"
    by blast
  from typed have 2: "keydown ''Enter'' (type_answer '' Stockholm '' (setQuestion capital_question new_QuizQuestion)) =
     Inr ((type_answer '' Stockholm '' (setQuestion capital_question new_QuizQuestion))
            \<lparr>currentSelectedAnswer := JStr (trim '' Stockholm '')\<rparr>,
          [AnswerSelected (JStr (trim '' Stockholm ''))])"
    by blast
  from blank c have 3: "click_submit (setQuestion two_plus_two new_QuizQuestion) =
     Inr (setQuestion two_plus_two new_QuizQuestion, [])"
    by blast
  from a b c 1 2 3 show ?thesis
    by (intro conjI)
qed

text \<open>
  C10. A question with no alternatives can also carry them as an empty object. The
  display then holds the text input (\<open>setQuestion\<close> asks for 2 to 10 keys), but
  \<open>handleAnswerClick\<close> only asks whether \<open>alternatives\<close> is truthy, which an empty
  object is: it looks for a checked radio button, finds none, and emits
  'answer-selected' with \<open>null\<close>. The text typed into the input is not read, so the
  event does not carry the trimmed input, on a click and on the Enter key alike.
\<close>

theorem empty_alternatives_answer_is_null:
  "options_container (setQuestion empty_alternatives_question new_QuizQuestion) = Text_input \<and>
   click_submit (type_answer '' Stockholm '' (setQuestion empty_alternatives_question new_QuizQuestion)) =
     Inr ((type_answer '' Stockholm '' (setQuestion empty_alternatives_question new_QuizQuestion))
            \<lparr>currentSelectedAnswer := JNull\<rparr>,
          [AnswerSelected JNull]) \<and>
   keydown ''Enter''
       (type_answer '' Stockholm '' (setQuestion empty_alternatives_question new_QuizQuestion)) =
     Inr ((type_answer '' Stockholm '' (setQuestion empty_alternatives_question new_QuizQuestion))
            \<lparr>currentSelectedAnswer := JNull\<rparr>,
          [AnswerSelected JNull]) \<and>
   trim '' Stockholm '' = ''Stockholm''"
  by code_simp

section \<open>The timer counts down to zero\<close>

lemma ticks_counting:
  "intervalId t \<Longrightarrow> timeLeft t = Fin m \<Longrightarrow> int k \<le> m \<Longrightarrow>
   snd (ticks k t) = [] \<and>
   intervalId (fst (ticks k t)) \<and>
   timeLeft (fst (ticks k t)) = Fin (m - int k) \<and>
   totalTimeSpent (fst (ticks k t)) = totalTimeSpent t + int k \<and>
   accumulatedTime (fst (ticks k t)) = accumulatedTime t"
proof (induction k arbitrary: t m)
  case 0
  then show ?case by simp
next
  case (Suc k)
  let ?t1 = "updateDisplay (t\<lparr>timeLeft := Fin (m - 1), totalTimeSpent := totalTimeSpent t + 1\<rparr>)"
  from Suc.prems have step: "tick t = (?t1, [])"
    by (simp add: tick_def)
  have run: "intervalId ?t1" "timeLeft ?t1 = Fin (m - 1)" "int k \<le> m - 1"
    using Suc.prems by (simp_all add: updateDisplay_def)
  from Suc.IH [OF run] show ?case
    by (simp add: step updateDisplay_def split: prod.splits)
qed

lemma ticks_append:
  "ticks (j + k) t =
     (case ticks j t of (t1, e1) \<Rightarrow> (case ticks k t1 of (t2, e2) \<Rightarrow> (t2, e1 @ e2)))"
  by (induction j arbitrary: t) (simp_all split: prod.splits)

lemma ticks_stopped: "\<not> intervalId t \<Longrightarrow> ticks k t = (t, [])"
  by (induction k) (simp_all add: tick_def)

lemma startTimer_fields:
  "intervalId (startTimer (JNum (Fin d)) t)"
  "timeLeft (startTimer (JNum (Fin d)) t) = Fin d"
  "totalTimeSpent (startTimer (JNum (Fin d)) t) = (if intervalId t then 0 else totalTimeSpent t)"
  "accumulatedTime (startTimer (JNum (Fin d)) t) =
     (if intervalId t then accumulatedTime t + totalTimeSpent t else accumulatedTime t)"
  by (simp_all add: startTimer_def stopTimer_def updateDisplay_def Let_def)

text \<open>
  C8. For every duration \<open>d > 0\<close>: after \<open>startTimer d\<close> the first \<open>d\<close> callbacks only
  count down (no signal, the interval stays live); the next callback stops the timer and
  dispatches 'total-time-spent' once, carrying the accumulated total, which is \<open>d\<close>
  more than what the timer held before the start (\<open>accumulatedTime\<close> plus the seconds
  of a countdown that \<open>startTimer\<close> folds in when it stops the running timer). Later
  callbacks add nothing.
\<close>

theorem timer_runs_to_zero:
  assumes "0 < d"
  shows "snd (ticks (nat d) (startTimer (JNum (Fin d)) t)) = [] \<and>
         intervalId (fst (ticks (nat d) (startTimer (JNum (Fin d)) t))) \<and>
         snd (ticks (Suc (nat d)) (startTimer (JNum (Fin d)) t)) =
           [TotalTimeSpent (accumulatedTime t + totalTimeSpent t + d)] \<and>
         \<not> intervalId (fst (ticks (Suc (nat d)) (startTimer (JNum (Fin d)) t))) \<and>
         accumulatedTime (fst (ticks (Suc (nat d)) (startTimer (JNum (Fin d)) t))) =
           accumulatedTime t + totalTimeSpent t + d \<and>
         ticks (Suc (nat d) + k) (startTimer (JNum (Fin d)) t) =
           ticks (Suc (nat d)) (startTimer (JNum (Fin d)) t)"
proof -
  let ?s = "startTimer (JNum (Fin d)) t"
  let ?total = "accumulatedTime t + totalTimeSpent t + d"
  obtain u ev where first: "ticks (nat d) ?s = (u, ev)"
    by (cases "ticks (nat d) ?s")
  have le: "int (nat d) \<le> d" using assms by simp
  note c = ticks_counting [OF startTimer_fields(1) startTimer_fields(2) le, of t]
  have u: "ev = []" "intervalId u" "timeLeft u = Fin 0"
    "totalTimeSpent u + accumulatedTime u = ?total"
    using c assms by (simp_all add: first startTimer_fields)
  have last: "tick u = (stopTimer u, [TotalTimeSpent ?total])"
    using u by (simp add: tick_def stopTimer_def Let_def add.commute)
  have all: "ticks (Suc (nat d)) ?s = (stopTimer u, [TotalTimeSpent ?total])"
    using ticks_append [of "nat d" 1 ?s] by (simp add: first last u(1))
  have stopped: "\<not> intervalId (stopTimer u)"
    by (simp add: stopTimer_def)
  have acc: "accumulatedTime (stopTimer u) = ?total"
    using u by (simp add: stopTimer_def add.commute)
  have later: "ticks (Suc (nat d) + k) ?s = ticks (Suc (nat d)) ?s"
  proof -
    have "ticks (Suc (nat d) + k) ?s =
        (case ticks (Suc (nat d)) ?s of
           (t1, e1) \<Rightarrow> (case ticks k t1 of (t2, e2) \<Rightarrow> (t2, e1 @ e2)))"
      by (rule ticks_append)
    also have "\<dots> = ticks (Suc (nat d)) ?s"
      unfolding all by (simp add: ticks_stopped [OF stopped] del: ticks.simps)
    finally show ?thesis .
  qed
  have "snd (ticks (nat d) ?s) = []" "intervalId (fst (ticks (nat d) ?s))"
    using u by (simp_all add: first)
  moreover have "snd (ticks (Suc (nat d)) ?s) = [TotalTimeSpent ?total]"
    "\<not> intervalId (fst (ticks (Suc (nat d)) ?s))"
    "accumulatedTime (fst (ticks (Suc (nat d)) ?s)) = ?total"
    unfolding all using stopped acc by simp_all
  ultimately show ?thesis
    using later by blast
qed

theorem timer_runs_to_zero_witness:
  "(0::int) < 3 \<and>
   ticks 3 (startTimer (JNum (Fin 3)) (new_CountdownTimer\<lparr>accumulatedTime := 5\<rparr>)) =
     (\<lparr>timeLeft = Fin 0, intervalId = True, totalTimeSpent = 3, accumulatedTime = 5,
       timer_display = Fin 0\<rparr>, []) \<and>
   ticks 4 (startTimer (JNum (Fin 3)) (new_CountdownTimer\<lparr>accumulatedTime := 5\<rparr>)) =
     (\<lparr>timeLeft = Fin 0, intervalId = False, totalTimeSpent = 0, accumulatedTime = 8,
       timer_display = Fin 0\<rparr>, [TotalTimeSpent 8])"
proof -
  have h: "(0::int) < 3" by simp
  have run3: "ticks 3 (startTimer (JNum (Fin 3)) (new_CountdownTimer\<lparr>accumulatedTime := 5\<rparr>)) =
     (\<lparr>timeLeft = Fin 0, intervalId = True, totalTimeSpent = 3, accumulatedTime = 5,
       timer_display = Fin 0\<rparr>, [])"
    by (simp add: numeral_3_eq_3 tick_def startTimer_def stopTimer_def updateDisplay_def
        new_CountdownTimer_def Let_def)
  have run4: "ticks 4 (startTimer (JNum (Fin 3)) (new_CountdownTimer\<lparr>accumulatedTime := 5\<rparr>)) =
     (\<lparr>timeLeft = Fin 0, intervalId = False, totalTimeSpent = 0, accumulatedTime = 8,
       timer_display = Fin 0\<rparr>, [TotalTimeSpent 8])"
    using timer_runs_to_zero [OF h, of "new_CountdownTimer\<lparr>accumulatedTime := 5\<rparr>" 0]
    by (simp add: eval_nat_numeral tick_def startTimer_def stopTimer_def updateDisplay_def
        new_CountdownTimer_def Let_def)
  from h run3 run4 show ?thesis by simp
qed

end
